theory Spec2Isabelle
  imports Complex_Main
begin

section \<open>Values and errors\<close>

text \<open>
  The exceptions that the two modules can surface. \<open>AssertionError\<close> carries the message of
  the \<open>assert\<close> statement; \<open>LibraryError\<close> stands for any exception coming out of the
  \<open>popgen\<close> package or of the train/test split function.
\<close>

datatype error =
    AssertionError string
  | ZeroDivisionError
  | OverflowError
  | KeyError string
  | NameError string
  | TypeError
  | ValueError
  | IndexError
  | StopIteration
  | OSError
  | LibraryError

section \<open>Binary64 arithmetic\<close>

text \<open>
  A Python \<open>float\<close> and a numpy \<open>float64\<close> scalar are both IEEE binary64 numbers: a finite
  value, an infinity or a NaN. A finite value is kept as the real number it denotes; the
  sign of zero is not kept.
\<close>

datatype float64 = Fin real | PInf | NInf | NaN

text \<open>Rounding to the nearest integer, ties to the even one.\<close>

definition round_even :: "real \<Rightarrow> int" where
  "round_even t =
     (if t - of_int \<lfloor>t\<rfloor> < 1 / 2 then \<lfloor>t\<rfloor>
      else if 1 / 2 < t - of_int \<lfloor>t\<rfloor> then \<lfloor>t\<rfloor> + 1
      else if even \<lfloor>t\<rfloor> then \<lfloor>t\<rfloor> else \<lfloor>t\<rfloor> + 1)"

text \<open>
  The exponent of the last place of a binary64 number of the magnitude of \<open>x\<close>: 52 below
  the exponent of \<open>x\<close>, which is at least \<open>-1022\<close> (below that the numbers are subnormal).
\<close>

definition ulp_exponent :: "real \<Rightarrow> int" where
  "ulp_exponent x = max \<lfloor>log 2 \<bar>x\<bar>\<rfloor> (- 1022) - 52"

text \<open>Rounding to 53 significant bits, to nearest and ties to even, the exponent unbounded above.\<close>

definition round_real :: "real \<Rightarrow> real" where
  "round_real x =
     (if x = 0 then 0
      else of_int (round_even (x / 2 powi ulp_exponent x)) * 2 powi ulp_exponent x)"

text \<open>The binary64 result of an exact value: a rounded magnitude of \<open>2^1024\<close> or more overflows.\<close>

definition round64 :: "real \<Rightarrow> float64" where
  "round64 x =
     (if 2 ^ 1024 \<le> round_real x then PInf
      else if round_real x \<le> - (2 ^ 1024) then NInf
      else Fin (round_real x))"

text \<open>The real numbers that are finite binary64 values, such as the floats of a command line.\<close>

definition is_double :: "real \<Rightarrow> bool" where
  "is_double x \<longleftrightarrow> round64 x = Fin x"

text \<open>
  The conversion of a Python integer to a float, as both \<open>float / int\<close> and
  \<open>float64 / int\<close> do it: correctly rounded, and an OverflowError for an integer beyond the
  range of the format.
\<close>

definition float_of_int :: "int \<Rightarrow> error + float64" where
  "float_of_int k =
     (case round64 (of_int k) of Fin r \<Rightarrow> Inr (Fin r) | _ \<Rightarrow> Inl OverflowError)"

fun f_neg :: "float64 \<Rightarrow> float64" where
  "f_neg (Fin a) = Fin (- a)"
| "f_neg PInf = NInf"
| "f_neg NInf = PInf"
| "f_neg NaN = NaN"

fun f_add :: "float64 \<Rightarrow> float64 \<Rightarrow> float64" where
  "f_add NaN _ = NaN"
| "f_add _ NaN = NaN"
| "f_add (Fin a) (Fin b) = round64 (a + b)"
| "f_add (Fin a) PInf = PInf"
| "f_add (Fin a) NInf = NInf"
| "f_add PInf NInf = NaN"
| "f_add NInf PInf = NaN"
| "f_add PInf _ = PInf"
| "f_add NInf _ = NInf"

definition f_sub :: "float64 \<Rightarrow> float64 \<Rightarrow> float64" where
  "f_sub a b = f_add a (f_neg b)"

fun f_mul :: "float64 \<Rightarrow> float64 \<Rightarrow> float64" where
  "f_mul NaN _ = NaN"
| "f_mul _ NaN = NaN"
| "f_mul (Fin a) (Fin b) = round64 (a * b)"
| "f_mul (Fin a) PInf = (if a = 0 then NaN else if 0 < a then PInf else NInf)"
| "f_mul (Fin a) NInf = (if a = 0 then NaN else if 0 < a then NInf else PInf)"
| "f_mul PInf (Fin b) = (if b = 0 then NaN else if 0 < b then PInf else NInf)"
| "f_mul NInf (Fin b) = (if b = 0 then NaN else if 0 < b then NInf else PInf)"
| "f_mul PInf PInf = PInf"
| "f_mul PInf NInf = NInf"
| "f_mul NInf PInf = NInf"
| "f_mul NInf NInf = PInf"

text \<open>
  IEEE division, as numpy performs it: a zero divisor gives an infinity, or a NaN for
  \<open>0 / 0\<close>, and raises nothing. (Python checks for the zero divisor before dividing.)
\<close>

fun f_div :: "float64 \<Rightarrow> float64 \<Rightarrow> float64" where
  "f_div NaN _ = NaN"
| "f_div _ NaN = NaN"
| "f_div (Fin a) (Fin b) =
     (if b = 0 then (if a = 0 then NaN else if 0 < a then PInf else NInf)
      else round64 (a / b))"
| "f_div (Fin a) PInf = Fin 0"
| "f_div (Fin a) NInf = Fin 0"
| "f_div PInf (Fin b) = (if 0 \<le> b then PInf else NInf)"
| "f_div NInf (Fin b) = (if 0 \<le> b then NInf else PInf)"
| "f_div PInf _ = NaN"
| "f_div NInf _ = NaN"

text \<open>\<open>np.sqrt\<close>: correctly rounded, NaN below zero.\<close>

fun f_sqrt :: "float64 \<Rightarrow> float64" where
  "f_sqrt NaN = NaN"
| "f_sqrt (Fin a) = (if a < 0 then NaN else round64 (sqrt a))"
| "f_sqrt PInf = PInf"
| "f_sqrt NInf = NaN"

text \<open>\<open>np.square\<close>: the product of the number with itself.\<close>

definition f_square :: "float64 \<Rightarrow> float64" where
  "f_square v = f_mul v v"


text \<open>\<open>np.isfinite\<close>: neither an infinity nor a NaN.\<close>

fun f_isfinite :: "float64 \<Rightarrow> bool" where
  "f_isfinite (Fin a) = True"
| "f_isfinite PInf = False"
| "f_isfinite NInf = False"
| "f_isfinite NaN = False"

section \<open>Rate interpolation\<close>

text \<open>
  \<^verbatim>\<open>rate = np.square((np.sqrt(rmax)-np.sqrt(rmin))/(nsam-1)*i + np.sqrt(rmin))\<close>

  The two square roots are float64 scalars, so the whole expression is computed by numpy:
  the division by \<open>nsam - 1 = 0\<close> raises nothing. The parameters are named \<open>n\<close>, \<open>lo\<close>,
  \<open>hi\<close> for the source's \<open>nsam\<close>, \<open>rmin\<close>, \<open>rmax\<close>, which are the field names of the
  argument record; \<open>lo\<close> and \<open>hi\<close> are finite floats.
\<close>

definition recombination_rate_quadratic_interpolation ::
  "int \<Rightarrow> int \<Rightarrow> real \<Rightarrow> real \<Rightarrow> error + float64" where
  "recombination_rate_quadratic_interpolation n i lo hi =
     (let d = f_sub (f_sqrt (Fin hi)) (f_sqrt (Fin lo))
      in case float_of_int (n - 1) of
           Inl e \<Rightarrow> Inl e
         | Inr m \<Rightarrow>
             (case float_of_int i of
                Inl e \<Rightarrow> Inl e
              | Inr k \<Rightarrow> Inr (f_square (f_add (f_mul (f_div d m) k) (f_sqrt (Fin lo))))))"

text \<open>
  \<^verbatim>\<open>rate = (rmax-rmin) / (nsam-1)*i + rmin\<close>

  Here the operands are Python floats: the division converts \<open>nsam - 1\<close> and raises
  ZeroDivisionError when it is zero.
\<close>

definition recombination_rate_const_interpolation ::
  "int \<Rightarrow> int \<Rightarrow> real \<Rightarrow> real \<Rightarrow> error + float64" where
  "recombination_rate_const_interpolation n i lo hi =
     (let d = f_sub (Fin hi) (Fin lo)
      in case float_of_int (n - 1) of
           Inl e \<Rightarrow> Inl e
         | Inr m \<Rightarrow>
             if m = Fin 0 then Inl ZeroDivisionError
             else
               (case float_of_int i of
                  Inl e \<Rightarrow> Inl e
                | Inr k \<Rightarrow> Inr (f_add (f_mul (f_div d m) k) (Fin lo))))"

section \<open>Command-line arguments\<close>

text \<open>The namespace built by \<open>gt_args\<close> of \<open>data_provider_parallel.py\<close>.\<close>

record args =
  nsam :: int
  ndraw :: int
  npop :: int
  ne :: real
  ploidy :: int
  mutation_rate :: real
  demography :: "string option"
  rmin :: real
  rmax :: real
  num_thread :: int
  out :: "string option"
  verbose :: bool

text \<open>The namespace built by \<open>gt_args\<close> of \<open>test_provider.py\<close>.\<close>

record tp_args =
  tp_npop :: int
  tp_ne :: real
  tp_ploidy :: int
  tp_mutation_rate :: real
  tp_demography :: "string option"
  tp_recombination_rate :: "real option"
  tp_sequence_length :: real
  tp_rate_map :: "string option"
  tp_num_thread :: int
  tp_out :: "string option"
  tp_verbose :: bool

section \<open>Data of the simulation\<close>

datatype demography_obj = Demography string

datatype rate_map_obj = RateMap (map_sequence_length: real)

datatype cfg_value =
    VFloat float64
  | VInt int
  | VDemography demography_obj
  | VRateMap rate_map_obj
  | VNone

type_synonym configuration = "string \<rightharpoonup> cfg_value"

text \<open>The attributes of a haplotype that \<open>simulate\<close> reads.\<close>

record haplotype =
  nsites :: int
  matrix :: "int list list"
  positions :: "real list"

record replicate =
  rep_haplotype :: haplotype

type_synonym genealogy = "string list"

text \<open>The three lists that \<open>simulate\<close> fills: haplotype windows, genealogy windows, rhos.\<close>

type_synonym samples = "int list list list \<times> genealogy list \<times> float64 list"

type_synonym array2 = "float64 list list"

datatype file_content =
    Pickle "array2 \<times> array2 \<times> array2 \<times> array2"
  | Vcf string
  | Other string

type_synonym filesystem = "string \<rightharpoonup> file_content"

section \<open>What the program calls but does not define\<close>

text \<open>
  The \<open>popgen\<close> package, the split function of the learning library, the operating system
  and the random generator are parameters of the model. Each library function may raise.
  \<open>Simulator\<close> gives the replicates that the generator yields and the exception, if any,
  that ends the iteration (a failure of the constructor is the case of no replicate).
  \<open>train_test_split x y t\<close> is the call with \<open>test_size = t\<close>.
  \<open>random_draws k\<close> is the sequence of random numbers consumed by the \<open>k\<close>-th call of
  \<open>simulate\<close>; a draw from \<open>range(n)\<close> is the next number modulo \<open>n\<close>.
\<close>

record ext =
  load_demography_from_file :: "string \<Rightarrow> (string \<times> int) option \<Rightarrow> error + demography_obj"
  load_recombination_map_from_file :: "string \<Rightarrow> error + rate_map_obj"
  Simulator :: "configuration \<Rightarrow> int \<Rightarrow> int \<Rightarrow> replicate list \<times> error option"
  filter_replicate :: "replicate \<Rightarrow> error + replicate"
  cut_replicate :: "replicate \<Rightarrow> int \<Rightarrow> error + replicate list"
  rentplus :: "haplotype list \<Rightarrow> int \<Rightarrow> error + genealogy list"
  rfdist :: "genealogy list \<Rightarrow> int \<Rightarrow> error + float64 list"
  triplet_dist :: "genealogy list \<Rightarrow> int \<Rightarrow> error + float64 list"
  linkage_disequilibrium :: "int list list list \<Rightarrow> error + float64 list"
  write_vcf :: "replicate \<Rightarrow> error + string"
  train_test_split ::
    "array2 \<Rightarrow> array2 \<Rightarrow> float64 \<Rightarrow> error + (array2 \<times> array2 \<times> array2 \<times> array2)"
  can_open :: "string \<Rightarrow> bool"
  random_draws :: "nat \<Rightarrow> nat \<Rightarrow> nat"

section \<open>Python helpers\<close>

text \<open>A \<open>for\<close> loop whose body may raise: the first exception ends it.\<close>

fun for_loop :: "('a \<Rightarrow> 's \<Rightarrow> error + 's) \<Rightarrow> 'a list \<Rightarrow> 's \<Rightarrow> error + 's" where
  "for_loop body [] s = Inr s"
| "for_loop body (x # xs) s =
     (case body x s of Inl e \<Rightarrow> Inl e | Inr s' \<Rightarrow> for_loop body xs s')"

text \<open>A list comprehension whose element expression may raise.\<close>

fun map_err :: "('a \<Rightarrow> error + 'b) \<Rightarrow> 'a list \<Rightarrow> error + 'b list" where
  "map_err f [] = Inr []"
| "map_err f (x # xs) =
     (case f x of
        Inl e \<Rightarrow> Inl e
      | Inr y \<Rightarrow> (case map_err f xs of Inl e \<Rightarrow> Inl e | Inr ys \<Rightarrow> Inr (y # ys)))"

text \<open>\<open>range(n)\<close>, empty for \<open>n \<le> 0\<close>.\<close>

definition py_range :: "int \<Rightarrow> nat list" where
  "py_range n = [0 ..< nat n]"

text \<open>Subscription \<open>xs[i]\<close>: IndexError outside \<open>-len(xs) .. len(xs) - 1\<close>.\<close>

definition py_getitem :: "'a list \<Rightarrow> int \<Rightarrow> error + 'a" where
  "py_getitem xs i =
     (if i < - int (length xs) \<or> int (length xs) \<le> i then Inl IndexError
      else if i < 0 then Inr (xs ! nat (int (length xs) + i))
      else Inr (xs ! nat i))"

text \<open>\<open>xs[a:b]\<close> for \<open>0 \<le> a\<close>, the only case that occurs: a slice never raises.\<close>

definition py_slice :: "'a list \<Rightarrow> int \<Rightarrow> int \<Rightarrow> 'a list" where
  "py_slice xs a b = take (nat (b - a)) (drop (nat a) xs)"

text \<open>\<open>Pool(processes)\<close> of \<open>multiprocessing.dummy\<close> refuses fewer than one worker.\<close>

definition Pool :: "int \<Rightarrow> error + nat" where
  "Pool processes = (if processes < 1 then Inl ValueError else Inr (nat processes))"

section \<open>data\_provider\_parallel.py\<close>

definition global_window_size :: int where
  "global_window_size = 1000"

definition window_size :: int where
  "window_size = 50"

definition build_configuration :: "ext \<Rightarrow> args \<Rightarrow> error + configuration" where
  "build_configuration ex a =
     (let c0 = Map.empty(''sequence_length'' \<mapsto> VFloat (Fin 500000));
          c1 = c0(''rate'' \<mapsto> VFloat (Fin (mutation_rate a)));
          c2 = c1(''ploidy'' \<mapsto> VInt (ploidy a))
      in case demography a of
           Some f \<Rightarrow>
             (case load_demography_from_file ex f None of
                Inl e \<Rightarrow> Inl e
              | Inr d \<Rightarrow> Inr (c2(''demography'' \<mapsto> VDemography d)))
         | None \<Rightarrow> Inr (c2(''population_size'' \<mapsto> VFloat (Fin (ne a)))))"

text \<open>
  \<open>save_training_data\<close>. The first argument after the library is the module-level binding
  of the name \<open>args\<close>, which the last line reads: \<open>None\<close> when the module has been imported
  and no such global exists. The result is the outcome and the file system afterwards.
\<close>

text \<open>The literal \<open>0.2\<close> of \<open>test_size=0.2\<close>: the float nearest to two tenths.\<close>

definition test_size :: float64 where
  "test_size = round64 (2 / 10)"

definition save_training_data ::
  "ext \<Rightarrow> args option \<Rightarrow> filesystem \<Rightarrow> string option \<Rightarrow> array2 \<times> array2
   \<Rightarrow> (error + unit) \<times> filesystem" where
  "save_training_data ex module_args fs path data =
     (case path of
        None \<Rightarrow> (Inl (AssertionError ''no file provided.''), fs)
      | Some p \<Rightarrow>
          if fs p \<noteq> None then (Inl (AssertionError ''file has already existed.''), fs)
          else
            (case data of (x, y) \<Rightarrow>
              (case train_test_split ex x y test_size of
                 Inl e \<Rightarrow> (Inl e, fs)
               | Inr (x_train, x_test, y_train, y_test) \<Rightarrow>
                   if \<not> can_open ex p then (Inl OSError, fs)
                   else
                     (let fs' = fs(p \<mapsto> Pickle (x_train, x_test, y_train, y_test))
                      in case module_args of
                           None \<Rightarrow> (Inl (NameError ''args''), fs')
                         | Some g \<Rightarrow> (Inr (), fs')))))"

text \<open>
  One pass of the innermost loop of \<open>simulate\<close> (lines 82 to 88). The state is the three
  lists and the number of random draws made so far.
\<close>

definition draw_window ::
  "configuration \<Rightarrow> float64 \<Rightarrow> haplotype \<Rightarrow> genealogy \<Rightarrow> (nat \<Rightarrow> nat)
   \<Rightarrow> samples \<times> nat \<Rightarrow> error + samples \<times> nat" where
  "draw_window configs r hap gen rnd st =
     (case st of ((haplotypes, genealogies, rhos), k) \<Rightarrow>
        if nsites hap - window_size \<le> 0 then Inl ValueError
        else
          (let start = int (rnd k mod nat (nsites hap - window_size));
               haplotypes' = haplotypes
                 @ [map (\<lambda>row. py_slice row start (start + window_size)) (matrix hap)];
               genealogies' = genealogies @ [py_slice gen start (start + window_size)]
           in case py_getitem (positions hap) (start + window_size) of
                Inl e \<Rightarrow> Inl e
              | Inr p1 \<Rightarrow>
                  (case py_getitem (positions hap) start of
                     Inl e \<Rightarrow> Inl e
                   | Inr p0 \<Rightarrow>
                       (case configs ''population_size'' of
                          None \<Rightarrow> Inl (KeyError ''population_size'')
                        | Some (VFloat pop) \<Rightarrow>
                            Inr ((haplotypes', genealogies',
                                  rhos @ [f_mul (f_mul (f_mul (Fin 2) pop) r)
                                                (f_sub (Fin p1) (Fin p0))]), Suc k)
                        | Some (VInt pop) \<Rightarrow>
                            (case float_of_int (2 * pop) of
                               Inl e \<Rightarrow> Inl e
                             | Inr twice \<Rightarrow>
                                 Inr ((haplotypes', genealogies',
                                       rhos @ [f_mul (f_mul twice r)
                                                     (f_sub (Fin p1) (Fin p0))]), Suc k))
                        | Some _ \<Rightarrow> Inl TypeError))))"

text \<open>The body of the loop over the simulator's replicates (lines 75 to 88).\<close>

definition process_replicate ::
  "ext \<Rightarrow> configuration \<Rightarrow> args \<Rightarrow> float64 \<Rightarrow> (nat \<Rightarrow> nat) \<Rightarrow> replicate
   \<Rightarrow> samples \<times> nat \<Rightarrow> error + samples \<times> nat" where
  "process_replicate ex configs a r rnd data st =
     (case filter_replicate ex data of
        Inl e \<Rightarrow> Inl e
      | Inr data' \<Rightarrow>
          (case cut_replicate ex data' global_window_size of
             Inl e \<Rightarrow> Inl e
           | Inr reps \<Rightarrow>
               (let haps = map rep_haplotype reps
                in case rentplus ex haps (num_thread a) of
                     Inl e \<Rightarrow> Inl e
                   | Inr inferred_genealogies \<Rightarrow>
                       for_loop
                         (\<lambda>(hap, gen). for_loop (\<lambda>j. draw_window configs r hap gen rnd)
                                                (py_range (ndraw a)))
                         (zip haps inferred_genealogies) st)))"

definition simulate ::
  "ext \<Rightarrow> configuration \<Rightarrow> args \<Rightarrow> float64 \<Rightarrow> (nat \<Rightarrow> nat) \<Rightarrow> error + samples" where
  "simulate ex configs a r rnd =
     (let configs' = configs(''recombination_rate'' \<mapsto> VFloat r)
      in case Simulator ex configs' (npop a) 1 of (yielded, failure) \<Rightarrow>
           (case for_loop (process_replicate ex configs' a r rnd) yielded (([], [], []), 0) of
              Inl e \<Rightarrow> Inl e
            | Inr (result, k) \<Rightarrow>
                (case failure of Some e \<Rightarrow> Inl e | None \<Rightarrow> Inr result)))"

text \<open>The parameter list of line 108, one triple for each index of \<open>range(nsam)\<close>.\<close>

definition paras ::
  "configuration \<Rightarrow> args \<Rightarrow> error + (configuration \<times> args \<times> float64) list" where
  "paras configs a =
     map_err (\<lambda>i. case recombination_rate_const_interpolation (nsam a) (int i) (rmin a) (rmax a) of
                     Inl e \<Rightarrow> Inl e
                   | Inr r \<Rightarrow> Inr (configs, a, r))
             (py_range (nsam a))"

text \<open>
  \<open>pool.starmap(simulate, paras)\<close>: the results come in the order of the parameters. The
  workers are run one after the other here, and the first failing call gives the exception.
\<close>

definition starmap ::
  "ext \<Rightarrow> (configuration \<times> args \<times> float64) list \<Rightarrow> error + samples list" where
  "starmap ex ps =
     map_err (\<lambda>(k, (configs, a, r)). simulate ex configs a r (random_draws ex k))
             (zip [0 ..< length ps] ps)"

text \<open>The loop of lines 111 to 114.\<close>

definition aggregate :: "samples list \<Rightarrow> samples" where
  "aggregate results =
     foldl (\<lambda>(haplotypes, genealogies, rhos) result.
              (haplotypes @ fst result, genealogies @ fst (snd result), rhos @ snd (snd result)))
           ([], [], []) results"

text \<open>
  Lines 120 to 123: three vectors become the three columns of one array; numpy refuses
  vectors of different lengths.
\<close>

definition concatenate_columns ::
  "float64 list \<Rightarrow> float64 list \<Rightarrow> float64 list \<Rightarrow> error + array2" where
  "concatenate_columns lds rfs tris =
     (if length lds = length rfs \<and> length rfs = length tris
      then Inr (map (\<lambda>(l, f, t). [l, f, t]) (zip lds (zip rfs tris)))
      else Inl ValueError)"

text \<open>Lines 117 to 124: the feature array and the target column.\<close>

definition features :: "ext \<Rightarrow> args \<Rightarrow> samples \<Rightarrow> error + array2 \<times> array2" where
  "features ex a s =
     (case s of (haplotypes, genealogies, rhos) \<Rightarrow>
        (case rfdist ex genealogies (num_thread a) of
           Inl e \<Rightarrow> Inl e
         | Inr rfdistance \<Rightarrow>
             (case triplet_dist ex genealogies (num_thread a) of
                Inl e \<Rightarrow> Inl e
              | Inr tridistance \<Rightarrow>
                  (case linkage_disequilibrium ex haplotypes of
                     Inl e \<Rightarrow> Inl e
                   | Inr lds \<Rightarrow>
                       (case concatenate_columns lds rfdistance tridistance of
                          Inl e \<Rightarrow> Inl e
                        | Inr data \<Rightarrow> Inr (data, map (\<lambda>rho. [rho]) rhos))))))"

definition run :: "ext \<Rightarrow> args option \<Rightarrow> filesystem \<Rightarrow> args \<Rightarrow> (error + unit) \<times> filesystem" where
  "run ex module_args fs a =
     (if out a = None then (Inl (AssertionError ''no output name.''), fs)
      else if \<not> rmax a \<ge> rmin a
        then (Inl (AssertionError ''r_max should be greater than r_min.''), fs)
      else
        (case Pool (num_thread a div 2) of
           Inl e \<Rightarrow> (Inl e, fs)
         | Inr pool \<Rightarrow>
             (case build_configuration ex a of
                Inl e \<Rightarrow> (Inl e, fs)
              | Inr configs \<Rightarrow>
                  (case paras configs a of
                     Inl e \<Rightarrow> (Inl e, fs)
                   | Inr ps \<Rightarrow>
                       (case starmap ex ps of
                          Inl e \<Rightarrow> (Inl e, fs)
                        | Inr results \<Rightarrow>
                            (case features ex a (aggregate results) of
                               Inl e \<Rightarrow> (Inl e, fs)
                             | Inr data \<Rightarrow>
                                 save_training_data ex module_args fs (out a) data))))))"

section \<open>test\_provider.py\<close>

definition tp_build_configuration :: "ext \<Rightarrow> tp_args \<Rightarrow> error + configuration" where
  "tp_build_configuration ex a =
     (let c1 = Map.empty(''rate'' \<mapsto> VFloat (Fin (tp_mutation_rate a)));
          c2 = c1(''ploidy'' \<mapsto> VInt (tp_ploidy a))
      in case (case tp_rate_map a of
                 Some f \<Rightarrow>
                   (case load_recombination_map_from_file ex f of
                      Inl e \<Rightarrow> Inl e
                    | Inr m \<Rightarrow> Inr (c2(''recombination_rate'' \<mapsto> VRateMap m,
                                       ''sequence_length'' \<mapsto> VFloat (Fin (map_sequence_length m)))))
               | None \<Rightarrow>
                   Inr (c2(''recombination_rate'' \<mapsto>
                             (case tp_recombination_rate a of None \<Rightarrow> VNone | Some r \<Rightarrow> VFloat (Fin r)),
                           ''sequence_length'' \<mapsto> VFloat (Fin (tp_sequence_length a))))) of
           Inl e \<Rightarrow> Inl e
         | Inr c3 \<Rightarrow>
             (case tp_demography a of
                Some f \<Rightarrow>
                  (case load_demography_from_file ex f (Some (''generation'', 29)) of
                     Inl e \<Rightarrow> Inl e
                   | Inr d \<Rightarrow> Inr (c3(''demography'' \<mapsto> VDemography d)))
              | None \<Rightarrow> Inr (c3(''population_size'' \<mapsto> VFloat (Fin (tp_ne a))))))"

definition simulate_single_genome :: "ext \<Rightarrow> configuration \<Rightarrow> tp_args \<Rightarrow> error + replicate" where
  "simulate_single_genome ex configs a =
     (case Simulator ex configs (tp_npop a) 1 of
        (genome # rest, failure) \<Rightarrow> Inr genome
      | ([], Some e) \<Rightarrow> Inl e
      | ([], None) \<Rightarrow> Inl StopIteration)"

definition tp_run :: "ext \<Rightarrow> filesystem \<Rightarrow> tp_args \<Rightarrow> (error + unit) \<times> filesystem" where
  "tp_run ex fs a =
     (case tp_out a of
        None \<Rightarrow> (Inl (AssertionError ''no output name.''), fs)
      | Some p \<Rightarrow>
          if (case tp_demography a of Some d \<Rightarrow> fs d = None | None \<Rightarrow> False)
            then (Inl (AssertionError []), fs)
          else if (case tp_rate_map a of Some m \<Rightarrow> fs m = None | None \<Rightarrow> False)
            then (Inl (AssertionError []), fs)
          else
            (case tp_build_configuration ex a of
               Inl e \<Rightarrow> (Inl e, fs)
             | Inr configs \<Rightarrow>
                 (case simulate_single_genome ex configs a of
                    Inl e \<Rightarrow> (Inl e, fs)
                  | Inr genome \<Rightarrow>
                      if \<not> can_open ex p then (Inl OSError, fs)
                      else
                        (case write_vcf ex genome of
                           Inl e \<Rightarrow> (Inl e, fs(p \<mapsto> Vcf []))
                         | Inr vcf \<Rightarrow> (Inr (), fs(p \<mapsto> Vcf vcf))))))"

section \<open>Concrete inputs\<close>

text \<open>
  A small stand-in for the library, used to run the model on concrete inputs: the simulator
  yields one replicate of 51 sites at positions 0 to 50, nothing is filtered or cut, every
  inferred genealogy has one tree per site, every statistic is one number per window, and
  the split puts the last fifth of the rows (rounded up) into the test part, whatever the
  test size asked for. The floats of the command line are the defaults rounded to binary64.
\<close>

definition small_hap :: haplotype where
  "small_hap = \<lparr>nsites = 51, matrix = [replicate 51 0, replicate 51 1],
                positions = map real [0 ..< 51]\<rparr>"

definition small_split ::
  "array2 \<Rightarrow> array2 \<Rightarrow> float64 \<Rightarrow> error + (array2 \<times> array2 \<times> array2 \<times> array2)" where
  "small_split x y t =
     (let n_test = (length x + 4) div 5; n_train = length x - n_test
      in if length x \<noteq> length y \<or> n_train = 0 then Inl ValueError
         else Inr (take n_train x, drop n_train x, take n_train y, drop n_train y))"

definition small_ext :: ext where
  "small_ext = \<lparr>
     load_demography_from_file = (\<lambda>f kw. Inr (Demography f)),
     load_recombination_map_from_file = (\<lambda>f. Inr (RateMap 500000)),
     Simulator = (\<lambda>configs n m. ([\<lparr>rep_haplotype = small_hap\<rparr>], None)),
     filter_replicate = (\<lambda>data. Inr data),
     cut_replicate = (\<lambda>data w. Inr [data]),
     rentplus = (\<lambda>haps n. Inr (map (\<lambda>h. replicate (nat (nsites h)) ''t'') haps)),
     rfdist = (\<lambda>gens n. Inr (map (\<lambda>g. Fin 0) gens)),
     triplet_dist = (\<lambda>gens n. Inr (map (\<lambda>g. Fin 0) gens)),
     linkage_disequilibrium = (\<lambda>haps. Inr (map (\<lambda>h. Fin 0) haps)),
     write_vcf = (\<lambda>genome. Inr ''vcf''),
     train_test_split = small_split,
     can_open = (\<lambda>p. True),
     random_draws = (\<lambda>k j. 0)\<rparr>"

text \<open>A library of which every call raises, and a system that opens no file.\<close>

definition failing_ext :: ext where
  "failing_ext = \<lparr>
     load_demography_from_file = (\<lambda>f kw. Inl LibraryError),
     load_recombination_map_from_file = (\<lambda>f. Inl LibraryError),
     Simulator = (\<lambda>configs n m. ([], Some LibraryError)),
     filter_replicate = (\<lambda>data. Inl LibraryError),
     cut_replicate = (\<lambda>data w. Inl LibraryError),
     rentplus = (\<lambda>haps n. Inl LibraryError),
     rfdist = (\<lambda>gens n. Inl LibraryError),
     triplet_dist = (\<lambda>gens n. Inl LibraryError),
     linkage_disequilibrium = (\<lambda>haps. Inl LibraryError),
     write_vcf = (\<lambda>genome. Inl LibraryError),
     train_test_split = (\<lambda>x y t. Inl LibraryError),
     can_open = (\<lambda>p. False),
     random_draws = (\<lambda>k j. 0)\<rparr>"

text \<open>
  The defaults of the command line, but for five samples, one draw per haplotype, four
  threads and an output path.
\<close>

definition default_args :: args where
  "default_args = \<lparr>nsam = 5, ndraw = 1, npop = 100, ne = 100000, ploidy = 1,
     mutation_rate = round_real (25 / 10 ^ 9), demography = None,
     rmin = round_real (1 / 10 ^ 9), rmax = round_real (5 / 10 ^ 7),
     num_thread = 4, out = Some ''train.pkl'', verbose = False\<rparr>"

text \<open>Two points on the rate grid.\<close>

definition two_args :: args where
  "two_args = default_args\<lparr>nsam := 2\<rparr>"


text \<open>A single point on the rate grid.\<close>

definition one_args :: args where
  "one_args = default_args\<lparr>nsam := 1\<rparr>"

text \<open>The values that the run on \<open>two_args\<close> goes through.\<close>

definition two_configs :: configuration where
  "two_configs = projr (build_configuration small_ext two_args)"

definition two_paras :: "(configuration \<times> args \<times> float64) list" where
  "two_paras = projr (paras two_configs two_args)"

definition two_results :: "samples list" where
  "two_results = projr (starmap small_ext two_paras)"

definition two_data :: "array2 \<times> array2" where
  "two_data = projr (features small_ext two_args (aggregate two_results))"


text \<open>The defaults of the command line of \<open>test_provider.py\<close>, with an output path.\<close>

definition tp_default_args :: tp_args where
  "tp_default_args = \<lparr>tp_npop = 100, tp_ne = 100000, tp_ploidy = 1,
     tp_mutation_rate = round_real (25 / 10 ^ 9), tp_demography = None, tp_recombination_rate = None,
     tp_sequence_length = 500000, tp_rate_map = None, tp_num_thread = 4,
     tp_out = Some ''genome.vcf'', tp_verbose = False\<rparr>"

section \<open>Predicates used in the statements\<close>

text \<open>The three lists of \<open>simulate\<close> have one entry per drawn window.\<close>

definition lockstep :: "samples \<times> nat \<Rightarrow> bool" where
  "lockstep st = (case st of ((haplotypes, genealogies, rhos), k) \<Rightarrow>
     length haplotypes = length genealogies \<and> length genealogies = length rhos)"

text \<open>
  Modelled from the spec: the functions \<open>rfdist\<close>, \<open>triplet_dist\<close> and
  \<open>linkage_disequilibrium\<close> of \<open>popgen.utils\<close> are not part of the sources at hand. The
  data model describes the feature matrix as "linkage disequilibrium, Robinson-Foulds
  distance, triplet distance per sampled window": each statistic, when it returns, gives
  one value for each window it was given.
\<close>

definition per_window :: "ext \<Rightarrow> bool" where
  "per_window ex \<longleftrightarrow>
     (\<forall>gens n v. rfdist ex gens n = Inr v \<longrightarrow> length v = length gens)
   \<and> (\<forall>gens n v. triplet_dist ex gens n = Inr v \<longrightarrow> length v = length gens)
   \<and> (\<forall>haps v. linkage_disequilibrium ex haps = Inr v \<longrightarrow> length v = length haps)"


section \<open>Properties of the rounding\<close>

lemma round_even_int: "round_even (of_int m) = m"
  by (simp add: round_even_def)

lemma round_even_bounds: "\<lfloor>t\<rfloor> \<le> round_even t" "round_even t \<le> \<lfloor>t\<rfloor> + 1"
  by (simp_all add: round_even_def)

lemma round_even_mono:
  assumes "s \<le> t"
  shows "round_even s \<le> round_even t"
proof (cases "\<lfloor>s\<rfloor> = \<lfloor>t\<rfloor>")
  case True
  with assms show ?thesis by (auto simp: round_even_def)
next
  case False
  with assms have "\<lfloor>s\<rfloor> < \<lfloor>t\<rfloor>" using floor_mono [OF assms] by linarith
  then have "\<lfloor>s\<rfloor> + 1 \<le> \<lfloor>t\<rfloor>" by simp
  with round_even_bounds(2) [of s] round_even_bounds(1) [of t] show ?thesis by linarith
qed

lemma round_even_le_int: "t \<le> of_int m \<Longrightarrow> round_even t \<le> m"
  using round_even_mono [of t "of_int m"] by (simp add: round_even_int)

lemma round_even_ge_int: "of_int m \<le> t \<Longrightarrow> m \<le> round_even t"
  using round_even_mono [of "of_int m" t] by (simp add: round_even_int)

lemma powr_two_int: "(2::real) powr of_int k = 2 powi k"
  by (simp add: powr_real_of_int')

lemma powr_two_int_Suc: "(2::real) powr (of_int k + 1) = 2 powi (k + 1)"
  using powr_two_int [of "k + 1"] by simp

lemma floor_log2_bounds:
  assumes "0 < x"
  shows "2 powi \<lfloor>log 2 x\<rfloor> \<le> x" "x < 2 powi (\<lfloor>log 2 x\<rfloor> + 1)"
proof -
  have "\<lfloor>log 2 x\<rfloor> = \<lfloor>log 2 x\<rfloor>" ..
  then have "2 powr of_int \<lfloor>log 2 x\<rfloor> \<le> x \<and> x < 2 powr (of_int \<lfloor>log 2 x\<rfloor> + 1)"
    using floor_log_eq_powr_iff [OF assms, of 2 "\<lfloor>log 2 x\<rfloor>"] by simp
  then show "2 powi \<lfloor>log 2 x\<rfloor> \<le> x" "x < 2 powi (\<lfloor>log 2 x\<rfloor> + 1)"
    by (simp_all add: powr_two_int powr_two_int_Suc)
qed


lemma powi_two_nat: "0 \<le> k \<Longrightarrow> (2::real) powi k = real_of_int (2 ^ nat k)"
  by (simp add: power_int_def)

lemma powi_two_quot: "(2::real) powi a / (2::real) powi b = (2::real) powi (a - b)"
  by (simp add: power_int_diff)

lemma powi_two_mono: "a \<le> b \<Longrightarrow> (2::real) powi a \<le> (2::real) powi b"
  by (rule power_int_increasing) simp_all

lemma powi_two_split: "(2::real) powi (k - e) * (2::real) powi e = (2::real) powi k"
  by (simp add: power_int_add [symmetric])

lemma ulp_exponent_pos:
  "0 < x \<Longrightarrow> ulp_exponent x = max \<lfloor>log 2 x\<rfloor> (- 1022) - 52"
  by (simp add: ulp_exponent_def)

lemma round_real_nonzero:
  "x \<noteq> 0 \<Longrightarrow> round_real x
     = real_of_int (round_even (x / (2::real) powi ulp_exponent x)) * (2::real) powi ulp_exponent x"
  by (simp add: round_real_def)

lemma ulp_exponent_mono:
  assumes "0 < x" "x \<le> y"
  shows "ulp_exponent x \<le> ulp_exponent y"
proof -
  have y: "0 < y" using assms by linarith
  have "log 2 x \<le> log 2 y" using assms by simp
  then have "\<lfloor>log 2 x\<rfloor> \<le> \<lfloor>log 2 y\<rfloor>" by (rule floor_mono)
  then show ?thesis unfolding ulp_exponent_pos [OF assms(1)] ulp_exponent_pos [OF y] by linarith
qed

lemma round_real_nonneg:
  assumes "0 \<le> x"
  shows "0 \<le> round_real x"
proof (cases "x = 0")
  case True
  then show ?thesis by (simp add: round_real_def)
next
  case False
  have "0 \<le> x / (2::real) powi ulp_exponent x" using assms by simp
  then have "real_of_int 0 \<le> x / (2::real) powi ulp_exponent x" by simp
  then have "0 \<le> round_even (x / (2::real) powi ulp_exponent x)" by (rule round_even_ge_int)
  then show ?thesis unfolding round_real_nonzero [OF False] by simp
qed

lemma scale_le:
  fixes a b :: int
  assumes "a \<le> b"
  shows "real_of_int a * (2::real) powi e \<le> real_of_int b * (2::real) powi e"
proof -
  have "real_of_int a \<le> real_of_int b" using assms by simp
  then show ?thesis by (rule mult_right_mono) simp
qed

lemma round_real_below_power:
  assumes "0 < x" "x \<le> (2::real) powi k" "ulp_exponent x \<le> k"
  shows "round_real x \<le> (2::real) powi k"
proof -
  let ?e = "ulp_exponent x"
  have nz: "x \<noteq> 0" using assms(1) by simp
  have d: "0 \<le> k - ?e" using assms(3) by simp
  have "x / (2::real) powi ?e \<le> (2::real) powi k / (2::real) powi ?e"
    using assms(2) by (simp add: divide_right_mono)
  also have "\<dots> = real_of_int (2 ^ nat (k - ?e))"
    unfolding powi_two_quot by (rule powi_two_nat [OF d])
  finally have "round_even (x / (2::real) powi ?e) \<le> 2 ^ nat (k - ?e)"
    by (rule round_even_le_int)
  then have "real_of_int (round_even (x / (2::real) powi ?e)) * (2::real) powi ?e
             \<le> real_of_int (2 ^ nat (k - ?e)) * (2::real) powi ?e"
    by (rule scale_le)
  also have "real_of_int (2 ^ nat (k - ?e)) = (2::real) powi (k - ?e)"
    by (rule powi_two_nat [OF d, symmetric])
  also have "(2::real) powi (k - ?e) * (2::real) powi ?e = (2::real) powi k"
    by (rule powi_two_split)
  finally show ?thesis unfolding round_real_nonzero [OF nz] .
qed

lemma round_real_above_power:
  assumes "0 < x" "(2::real) powi k \<le> x" "ulp_exponent x \<le> k"
  shows "(2::real) powi k \<le> round_real x"
proof -
  let ?e = "ulp_exponent x"
  have nz: "x \<noteq> 0" using assms(1) by simp
  have d: "0 \<le> k - ?e" using assms(3) by simp
  have "real_of_int (2 ^ nat (k - ?e)) = (2::real) powi k / (2::real) powi ?e"
    unfolding powi_two_quot by (rule powi_two_nat [OF d, symmetric])
  also have "\<dots> \<le> x / (2::real) powi ?e"
    using assms(2) by (simp add: divide_right_mono)
  finally have "2 ^ nat (k - ?e) \<le> round_even (x / (2::real) powi ?e)"
    by (rule round_even_ge_int)
  then have le: "real_of_int (2 ^ nat (k - ?e)) * (2::real) powi ?e
             \<le> real_of_int (round_even (x / (2::real) powi ?e)) * (2::real) powi ?e"
    by (rule scale_le)
  have "(2::real) powi k = (2::real) powi (k - ?e) * (2::real) powi ?e"
    by (rule powi_two_split [symmetric])
  also have "(2::real) powi (k - ?e) = real_of_int (2 ^ nat (k - ?e))"
    by (rule powi_two_nat [OF d])
  also note le
  finally show ?thesis unfolding round_real_nonzero [OF nz] .
qed

lemma round_real_mono_pos:
  assumes "0 < x" "x \<le> y"
  shows "round_real x \<le> round_real y"
proof (cases "ulp_exponent x = ulp_exponent y")
  case True
  have y: "0 < y" using assms by linarith
  have nx: "x \<noteq> 0" and ny: "y \<noteq> 0" using assms(1) y by simp_all
  have "x / (2::real) powi ulp_exponent y \<le> y / (2::real) powi ulp_exponent y"
    using assms(2) by (simp add: divide_right_mono)
  then have "round_even (x / (2::real) powi ulp_exponent y)
             \<le> round_even (y / (2::real) powi ulp_exponent y)"
    by (rule round_even_mono)
  then have "real_of_int (round_even (x / (2::real) powi ulp_exponent y))
               * (2::real) powi ulp_exponent y
             \<le> real_of_int (round_even (y / (2::real) powi ulp_exponent y))
               * (2::real) powi ulp_exponent y"
    by (rule scale_le)
  then show ?thesis
    unfolding round_real_nonzero [OF nx] round_real_nonzero [OF ny] True .
next
  case False
  have y: "0 < y" using assms by linarith
  from False ulp_exponent_mono [OF assms] have lt: "ulp_exponent x < ulp_exponent y" by simp
  let ?k = "\<lfloor>log 2 y\<rfloor>"
  have ey: "ulp_exponent y = ?k - 52"
    using lt unfolding ulp_exponent_pos [OF assms(1)] ulp_exponent_pos [OF y] by linarith
  have lx: "\<lfloor>log 2 x\<rfloor> + 1 \<le> ?k"
    using lt unfolding ulp_exponent_pos [OF assms(1)] ulp_exponent_pos [OF y] by linarith
  have "x < (2::real) powi (\<lfloor>log 2 x\<rfloor> + 1)" by (rule floor_log2_bounds(2) [OF assms(1)])
  also have "\<dots> \<le> (2::real) powi ?k" by (rule powi_two_mono [OF lx])
  finally have xk: "x \<le> (2::real) powi ?k" by simp
  have ky: "(2::real) powi ?k \<le> y" by (rule floor_log2_bounds(1) [OF y])
  have ex: "ulp_exponent x \<le> ?k" using lt ey by simp
  have ey': "ulp_exponent y \<le> ?k" using ey by simp
  from round_real_below_power [OF assms(1) xk ex] round_real_above_power [OF y ky ey']
  show ?thesis by linarith
qed

lemma round_real_mono:
  assumes "0 \<le> x" "x \<le> y"
  shows "round_real x \<le> round_real y"
proof (cases "x = 0")
  case True
  then show ?thesis using round_real_nonneg [of y] assms by (simp add: round_real_def)
next
  case False
  with assms(1) have "0 < x" by simp
  then show ?thesis using assms(2) by (rule round_real_mono_pos)
qed


lemma ulp_exponent_le:
  assumes "0 < x" "x \<le> (2::real) powi k" "- 1022 \<le> k"
  shows "ulp_exponent x \<le> k"
proof -
  have "\<lfloor>log 2 x\<rfloor> \<le> k"
  proof (rule ccontr)
    assume "\<not> \<lfloor>log 2 x\<rfloor> \<le> k"
    then have "k + 1 \<le> \<lfloor>log 2 x\<rfloor>" by simp
    then have "(2::real) powi (k + 1) \<le> (2::real) powi \<lfloor>log 2 x\<rfloor>" by (rule powi_two_mono)
    also have "\<dots> \<le> x" by (rule floor_log2_bounds(1) [OF assms(1)])
    also note assms(2)
    finally have "(2::real) powi (k + 1) \<le> (2::real) powi k" .
    moreover have "(2::real) powi k < (2::real) powi (k + 1)"
      by (rule power_int_strict_increasing) simp_all
    ultimately show False by linarith
  qed
  then show ?thesis unfolding ulp_exponent_pos [OF assms(1)] using assms(3) by linarith
qed

lemma round_real_le_power:
  assumes "0 \<le> x" "x \<le> (2::real) powi k" "- 1022 \<le> k"
  shows "round_real x \<le> (2::real) powi k"
proof (cases "x = 0")
  case True
  then show ?thesis by (simp add: round_real_def)
next
  case False
  with assms(1) have pos: "0 < x" by simp
  show ?thesis
    by (rule round_real_below_power [OF pos assms(2) ulp_exponent_le [OF pos assms(2,3)]])
qed

lemma round_real_power: "- 1022 \<le> k \<Longrightarrow> round_real ((2::real) powi k) = (2::real) powi k"
proof -
  assume k: "- 1022 \<le> k"
  have pos: "(0::real) < (2::real) powi k" by simp
  have e: "ulp_exponent ((2::real) powi k) \<le> k"
    by (rule ulp_exponent_le [OF pos _ k]) simp
  from round_real_below_power [OF pos _ e] round_real_above_power [OF pos _ e]
  show ?thesis by simp
qed

lemma round_real_ge_power:
  assumes "(2::real) powi k \<le> x" "- 1022 \<le> k"
  shows "(2::real) powi k \<le> round_real x"
proof -
  have "(0::real) \<le> (2::real) powi k" by simp
  from round_real_mono [OF this assms(1)] show ?thesis
    by (simp only: round_real_power [OF assms(2)])
qed

lemma two_power_1024: "(2::real) ^ 1024 = (2::real) powi 1024"
  by (simp add: power_int_def)

lemma two_power_1023: "(2::real) ^ 1023 = (2::real) powi 1023"
  by (simp add: power_int_def)

lemma powi_1023_less: "(2::real) powi 1023 < (2::real) ^ 1024"
  unfolding two_power_1024 by (rule power_int_strict_increasing) simp_all

lemma round_real_zero: "round_real 0 = 0"
  by (simp add: round_real_def)

lemma round_real_one: "round_real 1 = 1"
  using round_real_power [of 0] by simp


lemma round64_zero: "round64 0 = Fin 0"
  by (simp add: round64_def round_real_zero)





lemma is_double_one: "is_double 1"
  by (simp add: is_double_def round64_def round_real_one)


lemma float_of_int_Inr:
  assumes "float_of_int k = Inr v"
  shows "v = Fin (round_real (of_int k))" and "round64 (of_int k) = Fin (round_real (of_int k))"
  using assms by (auto simp: float_of_int_def round64_def split: if_splits float64.splits)

lemma float_of_int_zero: "float_of_int 0 = Inr (Fin 0)"
  by (simp add: float_of_int_def round64_zero)

lemma float_of_int_small:
  assumes "0 \<le> k" "real_of_int k \<le> 2 ^ 1023"
  shows "float_of_int k = Inr (Fin (round_real (of_int k)))"
proof -
  have nn: "0 \<le> real_of_int k" using assms(1) by simp
  have le: "real_of_int k \<le> (2::real) powi 1023"
    using assms(2) unfolding two_power_1023 .
  have "round_real (of_int k) \<le> (2::real) powi 1023"
    by (rule round_real_le_power [OF nn le]) simp
  with powi_1023_less have "round_real (of_int k) < 2 ^ 1024" by linarith
  with round_real_nonneg [OF nn] show ?thesis by (simp add: float_of_int_def round64_def)
qed

lemma float_of_int_overflow:
  assumes "2 ^ 1024 \<le> real_of_int k"
  shows "float_of_int k = Inl OverflowError"
proof -
  have ge: "(2::real) powi 1024 \<le> real_of_int k"
    using assms unfolding two_power_1024 .
  have "(2::real) powi 1024 \<le> round_real (of_int k)"
    by (rule round_real_ge_power [OF ge]) simp
  then have "2 ^ 1024 \<le> round_real (of_int k)"
    unfolding two_power_1024 .
  then show ?thesis unfolding float_of_int_def round64_def by (simp only: if_True float64.case)
qed

lemma float_of_int_below:
  assumes "0 \<le> i" "i \<le> j" "float_of_int j = Inr v"
  shows "float_of_int i = Inr (Fin (round_real (of_int i)))"
    and "round_real (of_int i) \<le> round_real (of_int j)"
proof -
  have nn: "0 \<le> real_of_int i" and le: "real_of_int i \<le> real_of_int j"
    using assms(1,2) by simp_all
  show m: "round_real (of_int i) \<le> round_real (of_int j)" by (rule round_real_mono [OF nn le])
  from float_of_int_Inr(2) [OF assms(3)] have "round_real (of_int j) < 2 ^ 1024"
    by (auto simp: round64_def split: if_splits)
  with m round_real_nonneg [OF nn]
  show "float_of_int i = Inr (Fin (round_real (of_int i)))"
    by (simp add: float_of_int_def round64_def)
qed

lemma float_of_int_positive:
  assumes "1 \<le> k"
  shows "1 \<le> round_real (of_int k)"
proof -
  have "round_real 1 \<le> round_real (of_int k)"
    by (rule round_real_mono) (use assms in simp_all)
  then show ?thesis by (simp add: round_real_one)
qed

section \<open>Properties of the interpolation\<close>








































section \<open>Loops and list comprehensions\<close>

lemma for_loop_invariant:
  assumes step: "\<And>x s s'. P s \<Longrightarrow> body x s = Inr s' \<Longrightarrow> P s'"
  shows "P s \<Longrightarrow> for_loop body xs s = Inr s' \<Longrightarrow> P s'"
proof (induction xs arbitrary: s)
  case Nil
  then show ?case by simp
next
  case (Cons x xs)
  from Cons.prems(2) obtain s1 where b: "body x s = Inr s1" and r: "for_loop body xs s1 = Inr s'"
    by (auto split: sum.splits)
  from step [OF Cons.prems(1) b] have "P s1" .
  from Cons.IH [OF this r] show ?case .
qed

lemma draw_window_lockstep:
  assumes "lockstep st" "draw_window configs r hap gen rnd st = Inr st'"
  shows "lockstep st'"
  using assms
  by (auto simp: draw_window_def lockstep_def Let_def
           split: prod.splits if_splits sum.splits option.splits cfg_value.splits)

lemma process_replicate_lockstep:
  assumes "lockstep st" "process_replicate ex configs a r rnd data st = Inr st'"
  shows "lockstep st'"
proof -
  from assms(2) obtain pairs where
    loop: "for_loop (\<lambda>(hap, gen). for_loop (\<lambda>j. draw_window configs r hap gen rnd)
                                            (py_range (ndraw a))) pairs st = Inr st'"
    by (auto simp: process_replicate_def Let_def split: sum.splits)
  have inner: "\<And>x s s'. lockstep s \<Longrightarrow>
      (case x of (hap, gen) \<Rightarrow> for_loop (\<lambda>j. draw_window configs r hap gen rnd)
                                         (py_range (ndraw a))) s = Inr s' \<Longrightarrow> lockstep s'"
  proof -
    fix x :: "haplotype \<times> genealogy" and s s'
    assume s: "lockstep s"
      and run: "(case x of (hap, gen) \<Rightarrow> for_loop (\<lambda>j. draw_window configs r hap gen rnd)
                                                 (py_range (ndraw a))) s = Inr s'"
    obtain hap gen where x: "x = (hap, gen)" by (cases x)
    from run x have "for_loop (\<lambda>j. draw_window configs r hap gen rnd) (py_range (ndraw a)) s
                     = Inr s'" by simp
    from for_loop_invariant [where P = lockstep, OF _ s this] draw_window_lockstep
    show "lockstep s'" by blast
  qed
  from for_loop_invariant [where P = lockstep, OF inner assms(1) loop] show ?thesis .
qed

lemma simulate_lockstep:
  assumes "simulate ex configs a r rnd = Inr (haplotypes, genealogies, rhos)"
  shows "length haplotypes = length genealogies \<and> length genealogies = length rhos"
proof -
  let ?c = "configs(''recombination_rate'' \<mapsto> VFloat r)"
  from assms obtain k where
    loop: "for_loop (process_replicate ex ?c a r rnd) (fst (Simulator ex ?c (npop a) 1))
             (([], [], []), 0) = Inr ((haplotypes, genealogies, rhos), k)"
    by (auto simp: simulate_def Let_def split: prod.splits sum.splits option.splits)
  have init: "lockstep (([], [], []), 0)" by (simp add: lockstep_def)
  have "lockstep ((haplotypes, genealogies, rhos), k)"
    by (rule for_loop_invariant [where P = lockstep, OF _ init loop])
       (rule process_replicate_lockstep)
  then show ?thesis by (simp add: lockstep_def)
qed

lemma map_err_Inr:
  "map_err f xs = Inr ys \<Longrightarrow>
     length ys = length xs \<and> (\<forall>i<length xs. f (xs ! i) = Inr (ys ! i))"
proof (induction xs arbitrary: ys)
  case Nil
  then show ?case by simp
next
  case (Cons x xs)
  from Cons.prems obtain y ys' where fx: "f x = Inr y" and rest: "map_err f xs = Inr ys'"
    and ys: "ys = y # ys'"
    by (auto split: sum.splits)
  from Cons.IH [OF rest] have len: "length ys' = length xs"
    and nth: "\<forall>i<length xs. f (xs ! i) = Inr (ys' ! i)" by simp_all
  show ?case
  proof (intro conjI allI impI)
    show "length ys = length (x # xs)" using len ys by simp
  next
    fix i assume "i < length (x # xs)"
    then show "f ((x # xs) ! i) = Inr (ys ! i)"
      using fx nth ys by (cases i) simp_all
  qed
qed

lemma aggregate_foldl:
  "foldl (\<lambda>(haplotypes, genealogies, rhos) result.
            (haplotypes @ fst result, genealogies @ fst (snd result), rhos @ snd (snd result)))
         (h, g, r) results
   = (h @ concat (map fst results), g @ concat (map (fst \<circ> snd) results),
      r @ concat (map (snd \<circ> snd) results))"
  by (induction results arbitrary: h g r) simp_all

lemma aggregate_concat:
  "aggregate results
   = (concat (map fst results), concat (map (fst \<circ> snd) results),
      concat (map (snd \<circ> snd) results))"
  unfolding aggregate_def aggregate_foldl by simp

lemma starmap_Inr:
  assumes "starmap ex ps = Inr results"
  shows "length results = length ps"
    and "\<forall>i<length ps. (case ps ! i of (configs, a, r) \<Rightarrow>
            simulate ex configs a r (random_draws ex i)) = Inr (results ! i)"
proof -
  from map_err_Inr [OF assms [unfolded starmap_def]]
  have len: "length results = length (zip [0 ..< length ps] ps)"
    and nth: "\<forall>i<length (zip [0 ..< length ps] ps).
       (case zip [0 ..< length ps] ps ! i of (k, (configs, a, r)) \<Rightarrow>
          simulate ex configs a r (random_draws ex k)) = Inr (results ! i)"
    by simp_all
  show "length results = length ps" using len by simp
  show "\<forall>i<length ps. (case ps ! i of (configs, a, r) \<Rightarrow>
            simulate ex configs a r (random_draws ex i)) = Inr (results ! i)"
  proof (intro allI impI)
    fix i assume i: "i < length ps"
    then have "zip [0 ..< length ps] ps ! i = (i, ps ! i)" by simp
    with nth i show "(case ps ! i of (configs, a, r) \<Rightarrow>
            simulate ex configs a r (random_draws ex i)) = Inr (results ! i)"
      by (auto split: prod.splits)
  qed
qed

lemma paras_Inr:
  assumes "paras configs a = Inr ps"
  shows "length ps = nat (nsam a)"
    and "\<forall>i<nat (nsam a).
           \<not> isl (recombination_rate_const_interpolation (nsam a) (int i) (rmin a) (rmax a))
         \<and> ps ! i = (configs, a,
              projr (recombination_rate_const_interpolation (nsam a) (int i) (rmin a) (rmax a)))"
proof -
  from map_err_Inr [OF assms [unfolded paras_def]]
  have len: "length ps = length (py_range (nsam a))"
    and nth: "\<forall>i<length (py_range (nsam a)).
       (case recombination_rate_const_interpolation (nsam a) (int (py_range (nsam a) ! i))
               (rmin a) (rmax a) of
          Inl e \<Rightarrow> Inl e | Inr r \<Rightarrow> Inr (configs, a, r)) = Inr (ps ! i)"
    by simp_all
  show "length ps = nat (nsam a)" using len by (simp add: py_range_def)
  show "\<forall>i<nat (nsam a).
           \<not> isl (recombination_rate_const_interpolation (nsam a) (int i) (rmin a) (rmax a))
         \<and> ps ! i = (configs, a,
              projr (recombination_rate_const_interpolation (nsam a) (int i) (rmin a) (rmax a)))"
  proof (intro allI impI)
    fix i assume i: "i < nat (nsam a)"
    then have "py_range (nsam a) ! i = i" by (simp add: py_range_def)
    with nth i have "(case recombination_rate_const_interpolation (nsam a) (int i)
               (rmin a) (rmax a) of
          Inl e \<Rightarrow> Inl e | Inr r \<Rightarrow> Inr (configs, a, r)) = Inr (ps ! i)"
      by (simp add: py_range_def)
    then show "\<not> isl (recombination_rate_const_interpolation (nsam a) (int i) (rmin a) (rmax a))
         \<and> ps ! i = (configs, a,
              projr (recombination_rate_const_interpolation (nsam a) (int i) (rmin a) (rmax a)))"
      by (auto split: sum.splits)
  qed
qed

section \<open>Properties of save\_training\_data\<close>

text \<open>
  Claim C3. For a path that exists already, and for every data pair, \<open>save_training_data\<close>
  raises an AssertionError and leaves the file system as it was: the file is never opened
  for writing. It raises in the same way when the path is \<open>None\<close>.
\<close>

theorem save_training_data_refuses:
  "(fs p \<noteq> None \<longrightarrow>
      save_training_data ex module_args fs (Some p) data
      = (Inl (AssertionError ''file has already existed.''), fs))
   \<and> save_training_data ex module_args fs None data
      = (Inl (AssertionError ''no file provided.''), fs)"
  by (simp add: save_training_data_def)

theorem save_training_data_refuses_witness:
  "[''train.pkl'' \<mapsto> Other ''old''] ''train.pkl'' \<noteq> None
   \<and> save_training_data small_ext None [''train.pkl'' \<mapsto> Other ''old''] (Some ''train.pkl'')
        ([[Fin 1, Fin 2, Fin 3]], [[Fin 4]])
      = (Inl (AssertionError ''file has already existed.''), [''train.pkl'' \<mapsto> Other ''old''])"
proof -
  have h: "[''train.pkl'' \<mapsto> Other ''old''] ''train.pkl'' \<noteq> None" by simp
  from save_training_data_refuses [of "[''train.pkl'' \<mapsto> Other ''old'']" "''train.pkl''"
      small_ext None "([[Fin 1, Fin 2, Fin 3]], [[Fin 4]])"] h
  show ?thesis by blast
qed

text \<open>
  Claim C6. Every call of \<open>save_training_data\<close> that returns has written, at the output
  path, the pickle of the four arrays that the split returned, in the order
  \<open>(x_train, x_test, y_train, y_test)\<close>, and has changed no other path.
\<close>

theorem save_training_data_pickles_split:
  assumes "save_training_data ex module_args fs path (x, y) = (Inr u, fs')"
  shows "path \<noteq> None \<and> \<not> isl (train_test_split ex x y test_size)
         \<and> fs' = fs(the path \<mapsto> Pickle (projr (train_test_split ex x y test_size)))"
  using assms
  by (auto simp: save_training_data_def Let_def
           split: option.splits if_splits sum.splits prod.splits)

theorem save_training_data_pickles_split_witness:
  "save_training_data small_ext (Some default_args) Map.empty (Some ''train.pkl'')
     ([[Fin 1], [Fin 2], [Fin 3], [Fin 4], [Fin 5]], [[Fin 6], [Fin 7], [Fin 8], [Fin 9], [Fin 10]])
   = (Inr (), [''train.pkl'' \<mapsto> Pickle ([[Fin 1], [Fin 2], [Fin 3], [Fin 4]], [[Fin 5]], [[Fin 6], [Fin 7], [Fin 8], [Fin 9]], [[Fin 10]])])
   \<and> Some ''train.pkl'' \<noteq> None
   \<and> \<not> isl (train_test_split small_ext [[Fin 1], [Fin 2], [Fin 3], [Fin 4], [Fin 5]]
         [[Fin 6], [Fin 7], [Fin 8], [Fin 9], [Fin 10]] test_size)
   \<and> [''train.pkl'' \<mapsto> Pickle ([[Fin 1], [Fin 2], [Fin 3], [Fin 4]], [[Fin 5]], [[Fin 6], [Fin 7], [Fin 8], [Fin 9]], [[Fin 10]])]
     = Map.empty(the (Some ''train.pkl'') \<mapsto>
         Pickle (projr (train_test_split small_ext [[Fin 1], [Fin 2], [Fin 3], [Fin 4], [Fin 5]]
                                                  [[Fin 6], [Fin 7], [Fin 8], [Fin 9], [Fin 10]]
                                                  test_size)))"
proof -
  have run: "save_training_data small_ext (Some default_args) Map.empty (Some ''train.pkl'')
     ([[Fin 1], [Fin 2], [Fin 3], [Fin 4], [Fin 5]], [[Fin 6], [Fin 7], [Fin 8], [Fin 9], [Fin 10]])
   = (Inr (), [''train.pkl'' \<mapsto> Pickle ([[Fin 1], [Fin 2], [Fin 3], [Fin 4]], [[Fin 5]], [[Fin 6], [Fin 7], [Fin 8], [Fin 9]], [[Fin 10]])])"
    by (simp add: save_training_data_def small_ext_def small_split_def)
  from save_training_data_pickles_split [OF run] run show ?thesis by blast
qed

text \<open>
  Claim C9. With no module-level binding of \<open>args\<close>, a call that gets past the two
  assertions, the split and the opening of the file raises a NameError, and the pickle is
  on disk all the same.
\<close>

theorem save_training_data_name_error:
  assumes "fs p = None" "train_test_split ex x y test_size = Inr parts" "can_open ex p"
  shows "save_training_data ex None fs (Some p) (x, y)
         = (Inl (NameError ''args''), fs(p \<mapsto> Pickle parts))
       \<and> snd (save_training_data ex None fs (Some p) (x, y)) p = Some (Pickle parts)"
  using assms
  by (cases parts) (simp add: save_training_data_def)

theorem save_training_data_name_error_witness:
  "(Map.empty :: filesystem) ''train.pkl'' = None
   \<and> train_test_split small_ext [[Fin 1], [Fin 2], [Fin 3], [Fin 4], [Fin 5]]
         [[Fin 6], [Fin 7], [Fin 8], [Fin 9], [Fin 10]] test_size
     = Inr ([[Fin 1], [Fin 2], [Fin 3], [Fin 4]], [[Fin 5]], [[Fin 6], [Fin 7], [Fin 8], [Fin 9]], [[Fin 10]])
   \<and> can_open small_ext ''train.pkl''
   \<and> save_training_data small_ext None Map.empty (Some ''train.pkl'')
        ([[Fin 1], [Fin 2], [Fin 3], [Fin 4], [Fin 5]], [[Fin 6], [Fin 7], [Fin 8], [Fin 9], [Fin 10]])
     = (Inl (NameError ''args''),
        [''train.pkl'' \<mapsto> Pickle ([[Fin 1], [Fin 2], [Fin 3], [Fin 4]], [[Fin 5]], [[Fin 6], [Fin 7], [Fin 8], [Fin 9]], [[Fin 10]])])"
proof -
  have a: "(Map.empty :: filesystem) ''train.pkl'' = None" by simp
  have b: "train_test_split small_ext [[Fin 1], [Fin 2], [Fin 3], [Fin 4], [Fin 5]]
         [[Fin 6], [Fin 7], [Fin 8], [Fin 9], [Fin 10]] test_size
     = Inr ([[Fin 1], [Fin 2], [Fin 3], [Fin 4]], [[Fin 5]], [[Fin 6], [Fin 7], [Fin 8], [Fin 9]], [[Fin 10]])"
    by (simp add: small_ext_def small_split_def)
  have c: "can_open small_ext ''train.pkl''" by (simp add: small_ext_def)
  from save_training_data_name_error [OF a b c] a b c show ?thesis by blast
qed




section \<open>The parameter list\<close>

lemma const_Inr:
  assumes "float_of_int (n - 1) = Inr m" "m \<noteq> Fin 0" "float_of_int i = Inr k"
  shows "recombination_rate_const_interpolation n i lo hi
         = Inr (f_add (f_mul (f_div (f_sub (Fin hi) (Fin lo)) m) k) (Fin lo))"
  using assms by (simp add: recombination_rate_const_interpolation_def)

lemma map_err_all_Inr:
  "(\<And>x. x \<in> set xs \<Longrightarrow> \<not> isl (f x)) \<Longrightarrow> \<not> isl (map_err f xs)"
proof (induction xs)
  case Nil
  then show ?case by simp
next
  case (Cons x xs)
  from Cons.prems [of x] obtain y where y: "f x = Inr y" by (cases "f x") auto
  from Cons.IH Cons.prems obtain ys where ys: "map_err f xs = Inr ys"
    by (cases "map_err f xs") auto
  from y ys show ?case by simp
qed

lemma paras_returns:
  assumes "2 \<le> nsam a" "float_of_int (nsam a - 1) = Inr m"
  shows "\<not> isl (paras configs a)"
  unfolding paras_def
proof (rule map_err_all_Inr)
  fix i assume "i \<in> set (py_range (nsam a))"
  then have i: "0 \<le> int i" "int i \<le> nsam a - 1" by (auto simp: py_range_def)
  have m: "m = Fin (round_real (of_int (nsam a - 1)))"
    by (rule float_of_int_Inr(1) [OF assms(2)])
  have "1 \<le> round_real (of_int (nsam a - 1))"
    by (rule float_of_int_positive) (use assms(1) in simp)
  then have nz: "m \<noteq> Fin 0" using m by simp
  note k = float_of_int_below(1) [OF i assms(2)]
  show "\<not> isl (case recombination_rate_const_interpolation (nsam a) (int i) (rmin a) (rmax a) of
                 Inl e \<Rightarrow> Inl e | Inr r \<Rightarrow> Inr (configs, a, r))"
    by (simp add: const_Inr [OF assms(2) nz k])
qed

lemma paras_elements:
  assumes "paras configs a = Inr ps" "p \<in> set ps"
  shows "fst p = configs" and "fst (snd p) = a"
proof -
  from assms(2) obtain i where i: "i < length ps" and p: "p = ps ! i"
    by (auto simp: in_set_conv_nth)
  from paras_Inr [OF assms(1)] i p
  have "p = (configs, a,
     projr (recombination_rate_const_interpolation (nsam a) (int i) (rmin a) (rmax a)))"
    by simp
  then show "fst p = configs" and "fst (snd p) = a" by simp_all
qed

section \<open>Properties of simulate and run\<close>

lemma two_configs_value:
  "build_configuration small_ext two_args = Inr two_configs"
  by (simp add: two_configs_def build_configuration_def two_args_def default_args_def)

lemma two_paras_value: "paras two_configs two_args = Inr two_paras"
proof -
  have n: "nsam two_args = 2" by (simp add: two_args_def default_args_def)
  have "float_of_int (nsam two_args - 1) = Inr (Fin (round_real (of_int (nsam two_args - 1))))"
    by (rule float_of_int_small) (simp_all add: n)
  from paras_returns [OF _ this, of two_configs] n show ?thesis by (simp add: two_paras_def)
qed

lemma two_population: "two_configs ''population_size'' = Some (VFloat (Fin 100000))"
  by (simp add: two_configs_def build_configuration_def two_args_def default_args_def)

lemma small_draw:
  assumes "configs ''population_size'' = Some (VFloat pop)"
  shows "draw_window configs r small_hap gen rnd ((h, g, rs), k)
         = Inr ((h @ [map (\<lambda>row. py_slice row 0 50) (matrix small_hap)],
                 g @ [py_slice gen 0 50],
                 rs @ [f_mul (f_mul (f_mul (Fin 2) pop) r) (f_sub (Fin 50) (Fin 0))]), Suc k)"
  using assms
  by (simp add: draw_window_def small_hap_def window_size_def py_getitem_def Let_def)

lemma small_simulate:
  assumes "configs ''population_size'' = Some (VFloat pop)" "ndraw a = 1"
  shows "simulate small_ext configs a r rnd
         = Inr ([map (\<lambda>row. py_slice row 0 50) (matrix small_hap)],
                [py_slice (replicate 51 ''t'') 0 50],
                [f_mul (f_mul (f_mul (Fin 2) pop) r) (f_sub (Fin 50) (Fin 0))])"
  using assms
  by (simp add: simulate_def small_ext_def process_replicate_def py_range_def small_draw)
    (simp add: small_hap_def)

lemma two_results_value: "starmap small_ext two_paras = Inr two_results"
proof -
  have n: "ndraw two_args = 1" by (simp add: two_args_def default_args_def)
  have "\<not> isl (starmap small_ext two_paras)"
    unfolding starmap_def
  proof (rule map_err_all_Inr)
    fix x assume mem: "x \<in> set (zip [0 ..< length two_paras] two_paras)"
    obtain k configs a r where x: "x = (k, configs, a, r)" by (cases x) auto
    from mem have "(configs, a, r) \<in> set two_paras"
      unfolding x by (rule set_zip_rightD)
    from paras_elements [OF two_paras_value this]
    have "configs = two_configs" "a = two_args" by simp_all
    then show "\<not> isl (case x of (k, configs, a, r) \<Rightarrow>
                        simulate small_ext configs a r (random_draws small_ext k))"
      unfolding x
      by (simp add: small_simulate [where configs = two_configs, OF two_population n])
  qed
  then show ?thesis by (simp add: two_results_def)
qed

lemma run_reaches_save:
  assumes "out a \<noteq> None" "rmin a \<le> rmax a" "1 \<le> num_thread a div 2"
    and "build_configuration ex a = Inr configs" "paras configs a = Inr ps"
    and "starmap ex ps = Inr results"
  shows "run ex module_args fs a =
     (case features ex a (aggregate results) of
        Inl e \<Rightarrow> (Inl e, fs)
      | Inr data \<Rightarrow> save_training_data ex module_args fs (out a) data)"
  using assms by (cases "out a") (simp_all add: run_def Pool_def)

lemma concat_lengths_eq:
  "(\<And>x. x \<in> set xs \<Longrightarrow> length (f x) = length (g x)) \<Longrightarrow>
     length (concat (map f xs)) = length (concat (map g xs))"
  by (induction xs) simp_all

lemma starmap_lockstep:
  assumes "starmap ex ps = Inr results" "res \<in> set results"
  shows "length (fst res) = length (fst (snd res))
       \<and> length (fst (snd res)) = length (snd (snd res))"
proof -
  from assms(2) obtain i where i: "i < length results" and res: "res = results ! i"
    by (auto simp: in_set_conv_nth)
  from starmap_Inr [OF assms(1)] i
  have call: "(case ps ! i of (configs, a, r) \<Rightarrow>
            simulate ex configs a r (random_draws ex i)) = Inr (results ! i)" by simp
  obtain configs a r where "ps ! i = (configs, a, r)" by (cases "ps ! i")
  with call have "simulate ex configs a r (random_draws ex i) = Inr res"
    using res by simp
  then have "simulate ex configs a r (random_draws ex i)
             = Inr (fst res, fst (snd res), snd (snd res))" by simp
  from simulate_lockstep [OF this] show ?thesis .
qed

lemma aggregate_lockstep:
  assumes "starmap ex ps = Inr results" "aggregate results = (haplotypes, genealogies, rhos)"
  shows "length haplotypes = length genealogies \<and> length genealogies = length rhos"
proof -
  have hg: "length (concat (map fst results)) = length (concat (map (fst \<circ> snd) results))"
    by (rule concat_lengths_eq) (simp add: starmap_lockstep [OF assms(1)])
  have gr: "length (concat (map (fst \<circ> snd) results))
            = length (concat (map (snd \<circ> snd) results))"
    by (rule concat_lengths_eq) (simp add: starmap_lockstep [OF assms(1)])
  from assms(2) hg gr show ?thesis by (simp add: aggregate_concat)
qed

lemma features_rows:
  assumes "per_window ex" "features ex a (haplotypes, genealogies, rhos) = Inr (data, target)"
    and "length haplotypes = length rhos"
  shows "length data = length target"
proof -
  from assms(2) obtain rfs tris lds where
    ld: "linkage_disequilibrium ex haplotypes = Inr lds"
    and cc: "concatenate_columns lds rfs tris = Inr data"
    and tg: "target = map (\<lambda>rho. [rho]) rhos"
    by (auto simp: features_def split: sum.splits)
  from cc have "length data = length lds"
    by (auto simp: concatenate_columns_def split: if_splits)
  moreover from assms(1) ld have "length lds = length haplotypes"
    by (simp add: per_window_def)
  ultimately show ?thesis using tg assms(3) by simp
qed

text \<open>
  Claim C7. Every call of \<open>simulate\<close> that returns gives three lists of equal length.
  In \<open>run\<close>, when each statistic of the library gives one value per window, the feature
  array assembled from the aggregated results has as many rows as the column of rhos, and
  this pair is what \<open>run\<close> hands to \<open>save_training_data\<close>.
\<close>

theorem row_counts_match:
  "(simulate ex configs a r rnd = Inr (haplotypes, genealogies, rhos) \<longrightarrow>
      length haplotypes = length genealogies \<and> length genealogies = length rhos)
   \<and> (per_window ex \<and> starmap ex ps = Inr results
      \<and> features ex a' (aggregate results) = Inr (data, target) \<longrightarrow>
      length data = length target)
   \<and> (out a' \<noteq> None \<and> rmin a' \<le> rmax a' \<and> 1 \<le> num_thread a' div 2
      \<and> build_configuration ex a' = Inr configs' \<and> paras configs' a' = Inr ps
      \<and> starmap ex ps = Inr results
      \<and> features ex a' (aggregate results) = Inr (data, target) \<longrightarrow>
      run ex module_args fs a'
      = save_training_data ex module_args fs (out a') (data, target))"
proof (intro conjI impI)
  assume "simulate ex configs a r rnd = Inr (haplotypes, genealogies, rhos)"
  from simulate_lockstep [OF this]
  show "length haplotypes = length genealogies" and "length genealogies = length rhos"
    by simp_all
next
  assume h: "per_window ex \<and> starmap ex ps = Inr results
      \<and> features ex a' (aggregate results) = Inr (data, target)"
  obtain hs gs rs where agg: "aggregate results = (hs, gs, rs)" by (cases "aggregate results")
  from aggregate_lockstep [of ex ps results hs gs rs] agg h have "length hs = length rs" by simp
  with features_rows [of ex a' hs gs rs data target] h agg
  show "length data = length target" by simp
next
  assume h: "out a' \<noteq> None \<and> rmin a' \<le> rmax a' \<and> 1 \<le> num_thread a' div 2
      \<and> build_configuration ex a' = Inr configs' \<and> paras configs' a' = Inr ps
      \<and> starmap ex ps = Inr results
      \<and> features ex a' (aggregate results) = Inr (data, target)"
  then show "run ex module_args fs a'
      = save_training_data ex module_args fs (out a') (data, target)"
    using run_reaches_save [of a' ex configs' ps results module_args fs] by simp
qed

text \<open>
  Claim C5. When the parameter list is built and every call returns, \<open>run\<close> has called
  \<open>simulate\<close> once for each index \<open>i\<close> of \<open>0 .. nsam - 1\<close>, \<open>nsam\<close> calls in all, the
  \<open>i\<close>-th with the rate \<open>recombination_rate_const_interpolation(nsam, i, rmin, rmax)\<close>;
  the aggregated lists are the concatenations, in the order of the grid, of the lists that
  the calls returned, and they are what the rest of \<open>run\<close> works on.
\<close>

theorem run_grid_and_concatenation:
  assumes "paras configs a = Inr ps" "starmap ex ps = Inr results"
  shows "length ps = nat (nsam a) \<and> length results = nat (nsam a)
    \<and> (\<forall>i<nat (nsam a).
          \<not> isl (recombination_rate_const_interpolation (nsam a) (int i) (rmin a) (rmax a))
        \<and> simulate ex configs a
            (projr (recombination_rate_const_interpolation (nsam a) (int i) (rmin a) (rmax a)))
            (random_draws ex i) = Inr (results ! i))
    \<and> aggregate results
      = (concat (map fst results), concat (map (fst \<circ> snd) results),
         concat (map (snd \<circ> snd) results))
    \<and> (out a \<noteq> None \<and> rmin a \<le> rmax a \<and> 1 \<le> num_thread a div 2
       \<and> build_configuration ex a = Inr configs \<longrightarrow>
        run ex module_args fs a =
          (case features ex a (concat (map fst results), concat (map (fst \<circ> snd) results),
                               concat (map (snd \<circ> snd) results)) of
             Inl e \<Rightarrow> (Inl e, fs)
           | Inr data \<Rightarrow> save_training_data ex module_args fs (out a) data))"
proof -
  note p = paras_Inr [OF assms(1)]
  note s = starmap_Inr [OF assms(2)]
  have len: "length ps = nat (nsam a)" by (rule p(1))
  have calls: "\<forall>i<nat (nsam a).
          \<not> isl (recombination_rate_const_interpolation (nsam a) (int i) (rmin a) (rmax a))
        \<and> simulate ex configs a
            (projr (recombination_rate_const_interpolation (nsam a) (int i) (rmin a) (rmax a)))
            (random_draws ex i) = Inr (results ! i)"
  proof (intro allI impI)
    fix i assume i: "i < nat (nsam a)"
    from p(2) i have ok: "\<not> isl (recombination_rate_const_interpolation (nsam a) (int i)
                                  (rmin a) (rmax a))"
      and at: "ps ! i = (configs, a,
              projr (recombination_rate_const_interpolation (nsam a) (int i) (rmin a) (rmax a)))"
      by simp_all
    from s(2) i len have "(case ps ! i of (configs, a, r) \<Rightarrow>
            simulate ex configs a r (random_draws ex i)) = Inr (results ! i)" by simp
    with at ok show "\<not> isl (recombination_rate_const_interpolation (nsam a) (int i)
                               (rmin a) (rmax a))
        \<and> simulate ex configs a
            (projr (recombination_rate_const_interpolation (nsam a) (int i) (rmin a) (rmax a)))
            (random_draws ex i) = Inr (results ! i)" by simp
  qed
  have runs: "out a \<noteq> None \<and> rmin a \<le> rmax a \<and> 1 \<le> num_thread a div 2
       \<and> build_configuration ex a = Inr configs \<longrightarrow>
        run ex module_args fs a =
          (case features ex a (concat (map fst results), concat (map (fst \<circ> snd) results),
                               concat (map (snd \<circ> snd) results)) of
             Inl e \<Rightarrow> (Inl e, fs)
           | Inr data \<Rightarrow> save_training_data ex module_args fs (out a) data)"
    using run_reaches_save [OF _ _ _ _ assms, of module_args fs]
    by (simp add: aggregate_concat)
  from len s(1) calls aggregate_concat [of results] runs show ?thesis by simp
qed

lemma small_per_window: "per_window small_ext"
  by (auto simp: per_window_def small_ext_def)

lemma default_rates: "rmin default_args \<le> rmax default_args"
  unfolding default_args_def
  by (simp only: args.select_convs) (rule round_real_mono; simp)

lemma two_checks:
  "out two_args \<noteq> None" "rmin two_args \<le> rmax two_args" "1 \<le> num_thread two_args div 2"
proof -
  show "out two_args \<noteq> None" "1 \<le> num_thread two_args div 2"
    by (simp_all add: two_args_def default_args_def)
  show "rmin two_args \<le> rmax two_args"
    using default_rates by (simp add: two_args_def)
qed

lemma small_features:
  assumes "length h = length g"
  shows "\<not> isl (features small_ext a (h, g, rs))"
  using assms by (simp add: features_def small_ext_def concatenate_columns_def)

lemma two_data_value:
  "features small_ext two_args (aggregate two_results) = Inr (fst two_data, snd two_data)"
proof -
  obtain h g rs where agg: "aggregate two_results = (h, g, rs)"
    by (cases "aggregate two_results")
  from aggregate_lockstep [OF two_results_value agg] have "length h = length g" by simp
  from small_features [OF this] agg show ?thesis by (simp add: two_data_def)
qed

lemma two_simulate:
  "simulate small_ext two_configs two_args (Fin 1) (\<lambda>j. 0)
   = Inr ([map (\<lambda>row. py_slice row 0 50) (matrix small_hap)],
          [py_slice (replicate 51 ''t'') 0 50], [f_mul (f_mul (f_mul (Fin 2) (Fin 100000)) (Fin 1)) (f_sub (Fin 50) (Fin 0))])"
  using small_simulate [where configs = two_configs and a = two_args and r = "Fin 1", OF two_population]
  by (simp add: two_args_def default_args_def)

theorem row_counts_match_witness:
  "simulate small_ext two_configs two_args (Fin 1) (\<lambda>j. 0)
   = Inr ([map (\<lambda>row. py_slice row 0 50) (matrix small_hap)],
          [py_slice (replicate 51 ''t'') 0 50], [f_mul (f_mul (f_mul (Fin 2) (Fin 100000)) (Fin 1)) (f_sub (Fin 50) (Fin 0))])
   \<and> per_window small_ext
   \<and> out two_args \<noteq> None \<and> rmin two_args \<le> rmax two_args \<and> 1 \<le> num_thread two_args div 2
   \<and> build_configuration small_ext two_args = Inr two_configs
   \<and> paras two_configs two_args = Inr two_paras
   \<and> starmap small_ext two_paras = Inr two_results
   \<and> features small_ext two_args (aggregate two_results) = Inr (fst two_data, snd two_data)
   \<and> length [map (\<lambda>row. py_slice row 0 50) (matrix small_hap)]
     = length [py_slice (replicate 51 ''t'') 0 50]
   \<and> length [py_slice (replicate 51 ''t'') 0 50] = length [f_mul (f_mul (f_mul (Fin 2) (Fin 100000)) (Fin 1)) (f_sub (Fin 50) (Fin 0))]
   \<and> length (fst two_data) = length (snd two_data)
   \<and> run small_ext None Map.empty two_args
     = save_training_data small_ext None Map.empty (out two_args) (fst two_data, snd two_data)"
  using row_counts_match [of small_ext two_configs two_args "Fin 1" "\<lambda>j. 0"
      "[map (\<lambda>row. py_slice row 0 50) (matrix small_hap)]"
      "[py_slice (replicate 51 ''t'') 0 50]" "[f_mul (f_mul (f_mul (Fin 2) (Fin 100000)) (Fin 1)) (f_sub (Fin 50) (Fin 0))]"
      two_paras two_results two_args "fst two_data" "snd two_data" two_configs None Map.empty]
    two_simulate small_per_window two_checks two_configs_value two_paras_value
    two_results_value two_data_value
  by blast

theorem run_grid_and_concatenation_witness:
  "paras two_configs two_args = Inr two_paras
   \<and> starmap small_ext two_paras = Inr two_results
   \<and> out two_args \<noteq> None \<and> rmin two_args \<le> rmax two_args \<and> 1 \<le> num_thread two_args div 2
   \<and> build_configuration small_ext two_args = Inr two_configs
   \<and> length two_paras = nat (nsam two_args) \<and> length two_results = nat (nsam two_args)
   \<and> nat (nsam two_args) = 2
   \<and> simulate small_ext two_configs two_args
        (projr (recombination_rate_const_interpolation (nsam two_args) (int 1)
                  (rmin two_args) (rmax two_args)))
        (random_draws small_ext 1) = Inr (two_results ! 1)
   \<and> run small_ext None Map.empty two_args =
       (case features small_ext two_args
               (concat (map fst two_results), concat (map (fst \<circ> snd) two_results),
                concat (map (snd \<circ> snd) two_results)) of
          Inl e \<Rightarrow> (Inl e, Map.empty)
        | Inr data \<Rightarrow> save_training_data small_ext None Map.empty (out two_args) data)"
proof -
  have n: "nat (nsam two_args) = 2" by (simp add: two_args_def default_args_def)
  then have i: "1 < nat (nsam two_args)" by simp
  from run_grid_and_concatenation [OF two_paras_value two_results_value, of None Map.empty]
    two_paras_value two_results_value two_checks two_configs_value n i
  show ?thesis by blast
qed

section \<open>A configuration without population size\<close>












section \<open>The rate grid and the checks of the entry points\<close>

lemma const_nsam_one:
  "recombination_rate_const_interpolation 1 i lo hi = Inl ZeroDivisionError"
  by (simp add: recombination_rate_const_interpolation_def float_of_int_zero)

lemma f_div_zero: "\<not> f_isfinite (f_div v (Fin 0))"
  by (cases v) simp_all

lemma f_mul_not_finite: "\<not> f_isfinite v \<Longrightarrow> \<not> f_isfinite (f_mul v w)"
  by (cases v; cases w) simp_all

lemma f_add_not_finite: "\<not> f_isfinite v \<Longrightarrow> \<not> f_isfinite (f_add v w)"
  by (cases v; cases w) simp_all

lemma f_square_not_finite: "\<not> f_isfinite v \<Longrightarrow> \<not> f_isfinite (f_square v)"
  unfolding f_square_def by (rule f_mul_not_finite)

lemma quadratic_nsam_one:
  assumes "float_of_int i = Inr k"
  shows "recombination_rate_quadratic_interpolation 1 i lo hi
         = Inr (f_square (f_add (f_mul (f_div (f_sub (f_sqrt (Fin hi)) (f_sqrt (Fin lo))) (Fin 0)) k)
                                (f_sqrt (Fin lo))))"
    and "\<not> f_isfinite (f_square (f_add
           (f_mul (f_div (f_sub (f_sqrt (Fin hi)) (f_sqrt (Fin lo))) (Fin 0)) k)
           (f_sqrt (Fin lo))))"
proof -
  show "recombination_rate_quadratic_interpolation 1 i lo hi
         = Inr (f_square (f_add (f_mul (f_div (f_sub (f_sqrt (Fin hi)) (f_sqrt (Fin lo))) (Fin 0)) k)
                                (f_sqrt (Fin lo))))"
    using assms
    by (simp add: recombination_rate_quadratic_interpolation_def float_of_int_zero)
  show "\<not> f_isfinite (f_square (f_add
           (f_mul (f_div (f_sub (f_sqrt (Fin hi)) (f_sqrt (Fin lo))) (Fin 0)) k)
           (f_sqrt (Fin lo))))"
    by (intro f_square_not_finite f_add_not_finite f_mul_not_finite f_div_zero)
qed

lemma float_of_int_Inl: "float_of_int k = Inl e \<Longrightarrow> e = OverflowError"
  by (auto simp: float_of_int_def split: float64.splits)

lemma quadratic_nsam_one_result:
  "recombination_rate_quadratic_interpolation 1 i lo hi \<noteq> Inl ZeroDivisionError"
  "recombination_rate_quadratic_interpolation 1 i lo hi = Inr v \<Longrightarrow> \<not> f_isfinite v"
proof -
  show "recombination_rate_quadratic_interpolation 1 i lo hi \<noteq> Inl ZeroDivisionError"
  proof (cases "float_of_int i")
    case (Inl e)
    with float_of_int_Inl [OF Inl] show ?thesis
      by (simp add: recombination_rate_quadratic_interpolation_def float_of_int_zero)
  next
    case (Inr k)
    from quadratic_nsam_one(1) [OF Inr] show ?thesis by simp
  qed
  assume v: "recombination_rate_quadratic_interpolation 1 i lo hi = Inr v"
  then obtain k where k: "float_of_int i = Inr k"
    by (auto simp: recombination_rate_quadratic_interpolation_def Let_def split: sum.splits)
  from quadratic_nsam_one [OF k, where lo = lo and hi = hi] v show "\<not> f_isfinite v" by simp
qed

lemma py_range_Cons: "1 \<le> n \<Longrightarrow> py_range n = 0 # [1 ..< nat n]"
  by (simp add: py_range_def upt_conv_Cons)

lemma paras_first_fails:
  assumes "1 \<le> nsam a"
    and "recombination_rate_const_interpolation (nsam a) 0 (rmin a) (rmax a) = Inl e"
  shows "paras configs a = Inl e"
  using assms(2) by (simp add: paras_def py_range_Cons [OF assms(1)])

lemma const_overflow:
  assumes "float_of_int (n - 1) = Inl e"
  shows "recombination_rate_const_interpolation n i lo hi = Inl OverflowError"
  using assms float_of_int_Inl [OF assms]
  by (simp add: recombination_rate_const_interpolation_def)

lemma paras_fails_iff:
  "paras configs a = Inl e \<longleftrightarrow>
     nsam a = 1 \<and> e = ZeroDivisionError
   \<or> 2 \<le> nsam a \<and> float_of_int (nsam a - 1) = Inl OverflowError \<and> e = OverflowError"
proof -
  consider "nsam a \<le> 0" | "nsam a = 1" | "2 \<le> nsam a" by linarith
  then show ?thesis
  proof cases
    case 1
    then show ?thesis by (simp add: paras_def py_range_def)
  next
    case 2
    then have "paras configs a = Inl ZeroDivisionError"
      by (intro paras_first_fails) (simp_all add: const_nsam_one)
    with 2 show ?thesis by auto
  next
    case 3
    show ?thesis
    proof (cases "float_of_int (nsam a - 1)")
      case (Inl e')
      from float_of_int_Inl [OF Inl] Inl
      have f: "float_of_int (nsam a - 1) = Inl OverflowError" by simp
      have "paras configs a = Inl OverflowError"
        by (rule paras_first_fails) (use 3 in \<open>simp_all add: const_overflow [OF f]\<close>)
      with 3 f show ?thesis by auto
    next
      case (Inr m)
      from paras_returns [OF 3 Inr, of configs] 3 Inr show ?thesis by auto
    qed
  qed
qed

lemma paras_overflow:
  assumes "2 ^ 1024 < nsam a"
  shows "paras configs a = Inl OverflowError"
proof -
  have "(2::int) ^ 1024 \<le> nsam a - 1" using assms by simp
  then have "real_of_int (2 ^ 1024) \<le> real_of_int (nsam a - 1)" by (simp only: of_int_le_iff)
  then have "2 ^ 1024 \<le> real_of_int (nsam a - 1)" by simp
  then have f: "float_of_int (nsam a - 1) = Inl OverflowError" by (rule float_of_int_overflow)
  have "(0::int) < 2 ^ 1024" by simp
  with assms have "2 \<le> nsam a" by linarith
  with f show ?thesis by (simp add: paras_fails_iff)
qed

lemma run_nsam_one:
  assumes "nsam a = 1" "out a \<noteq> None" "rmin a \<le> rmax a" "1 \<le> num_thread a div 2"
    and "build_configuration ex a = Inr configs"
  shows "run ex module_args fs a = (Inl ZeroDivisionError, fs)"
proof -
  have "paras configs a = Inl ZeroDivisionError"
    using assms(1) by (simp add: paras_fails_iff)
  with assms show ?thesis by (cases "out a") (simp_all add: run_def Pool_def)
qed

text \<open>
  Claim C10, as the code has it. With \<open>nsam = 1\<close> every call of the linear interpolation
  raises ZeroDivisionError. The quadratic one, computed on float64 scalars, raises no
  ZeroDivisionError: it returns an infinity or a NaN at every index that converts to a
  float. Building the parameter list of \<open>run\<close> fails with ZeroDivisionError exactly when
  \<open>nsam = 1\<close>, and \<open>run\<close> passes it on, no assertion coming first; the only other failure
  is the OverflowError of an \<open>nsam - 1\<close> too large for a float, as beyond \<open>2^1024\<close>.
\<close>

theorem grid_needs_two_points:
  "recombination_rate_const_interpolation 1 i lo hi = Inl ZeroDivisionError
   \<and> recombination_rate_quadratic_interpolation 1 i lo hi \<noteq> Inl ZeroDivisionError
   \<and> (recombination_rate_quadratic_interpolation 1 i lo hi = Inr v \<longrightarrow> \<not> f_isfinite v)
   \<and> (0 \<le> i \<and> real_of_int i \<le> 2 ^ 1023 \<longrightarrow>
        \<not> isl (recombination_rate_quadratic_interpolation 1 i lo hi))
   \<and> (paras configs a = Inl e \<longleftrightarrow>
          nsam a = 1 \<and> e = ZeroDivisionError
        \<or> 2 \<le> nsam a \<and> float_of_int (nsam a - 1) = Inl OverflowError \<and> e = OverflowError)
   \<and> (2 ^ 1024 < nsam a \<longrightarrow> paras configs a = Inl OverflowError)
   \<and> (nsam a = 1 \<and> out a \<noteq> None \<and> rmin a \<le> rmax a \<and> 1 \<le> num_thread a div 2
      \<and> build_configuration ex a = Inr configs \<longrightarrow>
        run ex module_args fs a = (Inl ZeroDivisionError, fs))"
proof -
  have ret: "\<not> isl (recombination_rate_quadratic_interpolation 1 i lo hi)"
    if "0 \<le> i" "real_of_int i \<le> 2 ^ 1023"
    using quadratic_nsam_one(1) [OF float_of_int_small [OF that], where lo = lo and hi = hi]
    by simp
  from const_nsam_one [of i lo hi] quadratic_nsam_one_result(1) [of i lo hi]
    quadratic_nsam_one_result(2) [of i lo hi v] ret
    paras_fails_iff [of configs a e] paras_overflow [of a configs]
    run_nsam_one [of a ex configs module_args fs]
  show ?thesis by blast
qed

lemma one_checks:
  "nsam one_args = 1" "out one_args \<noteq> None" "rmin one_args \<le> rmax one_args"
  "1 \<le> num_thread one_args div 2" "demography one_args = None"
proof -
  show "nsam one_args = 1" "out one_args \<noteq> None" "1 \<le> num_thread one_args div 2"
    "demography one_args = None"
    by (simp_all add: one_args_def default_args_def)
  show "rmin one_args \<le> rmax one_args"
    using default_rates by (simp add: one_args_def)
qed

lemma build_configuration_plain:
  "demography a = None \<Longrightarrow> \<not> isl (build_configuration ex a)"
  by (simp add: build_configuration_def)

theorem grid_needs_two_points_witness:
  "nsam one_args = 1 \<and> out one_args \<noteq> None \<and> rmin one_args \<le> rmax one_args
   \<and> 1 \<le> num_thread one_args div 2
   \<and> build_configuration small_ext one_args
     = Inr (projr (build_configuration small_ext one_args))
   \<and> (0::int) \<le> 1 \<and> real_of_int 1 \<le> 2 ^ 1023
   \<and> recombination_rate_quadratic_interpolation 1 1 0 1
     = Inr (projr (recombination_rate_quadratic_interpolation 1 1 0 1))
   \<and> \<not> f_isfinite (projr (recombination_rate_quadratic_interpolation 1 1 0 1))
   \<and> paras (projr (build_configuration small_ext one_args)) one_args = Inl ZeroDivisionError
   \<and> run small_ext (Some one_args) Map.empty one_args = (Inl ZeroDivisionError, Map.empty)"
proof -
  have b: "build_configuration small_ext one_args
           = Inr (projr (build_configuration small_ext one_args))"
    using build_configuration_plain [OF one_checks(5), of small_ext] by simp
  have i: "(0::int) \<le> 1" "real_of_int 1 \<le> 2 ^ 1023" by simp_all
  note t = grid_needs_two_points [of 1 0 1
      "projr (recombination_rate_quadratic_interpolation 1 1 0 1)"
      "projr (build_configuration small_ext one_args)"
      one_args ZeroDivisionError small_ext "Some one_args" Map.empty]
  from t i have q: "recombination_rate_quadratic_interpolation 1 1 0 1
     = Inr (projr (recombination_rate_quadratic_interpolation 1 1 0 1))"
    by simp
  from t q one_checks b i show ?thesis by blast
qed

text \<open>
  The claim as written has both functions raise for \<open>nsam = 1\<close>, and \<open>run\<close> need
  \<open>nsam \<ge> 2\<close> for its grid. The quadratic function returns NaN and infinity there, and
  for \<open>nsam = 0\<close> the grid is the empty list.
\<close>

theorem quadratic_nsam_one_counterexample:
  "recombination_rate_quadratic_interpolation 1 0 0 1 = Inr NaN
   \<and> recombination_rate_quadratic_interpolation 1 1 0 1 = Inr PInf
   \<and> paras Map.empty (default_args\<lparr>nsam := 0\<rparr>) = Inr []"
proof -
  have one: "round64 1 = Fin 1" using is_double_one by (simp add: is_double_def)
  have k: "float_of_int 1 = Inr (Fin 1)" by (simp add: float_of_int_def one)
  show ?thesis
    by (simp add: recombination_rate_quadratic_interpolation_def f_sub_def f_square_def
        float_of_int_zero k one round64_zero paras_def py_range_def)
qed

text \<open>
  The claim C2 as written lets the program raise nothing of its own but AssertionErrors.
  With \<open>--nsam 1\<close> and every check passed, \<open>run\<close> raises a ZeroDivisionError, whatever
  the library does: here every library call would fail, and none is reached.
\<close>

theorem run_zero_division_counterexample:
  "out one_args \<noteq> None \<and> rmin one_args \<le> rmax one_args \<and> demography one_args = None
   \<and> run failing_ext None Map.empty one_args = (Inl ZeroDivisionError, Map.empty)"
proof -
  have "build_configuration failing_ext one_args
        = Inr (projr (build_configuration failing_ext one_args))"
    using build_configuration_plain [OF one_checks(5), of failing_ext] by simp
  from run_nsam_one [OF one_checks(1-4) this] one_checks show ?thesis by blast
qed

text \<open>
  Claim C2, as the code has it. The checks of the program are assertions: \<open>run\<close> of
  \<open>data_provider_parallel.py\<close> raises an AssertionError when the output path is unset and
  when \<open>rmax < rmin\<close>, before any call into the library; \<open>save_training_data\<close> raises one
  when its path is unset or exists already; \<open>run\<close> of \<open>test_provider.py\<close> raises one when
  the output path is unset and when a given demography or rate-map file is missing. In
  each case the file system is left as it was.
\<close>

theorem precondition_assertions:
  "(out a1 = None \<longrightarrow>
      run ex module_args fs a1 = (Inl (AssertionError ''no output name.''), fs))
   \<and> (out a2 \<noteq> None \<and> rmax a2 < rmin a2 \<longrightarrow>
      run ex module_args fs a2
      = (Inl (AssertionError ''r_max should be greater than r_min.''), fs))
   \<and> save_training_data ex module_args fs None data
     = (Inl (AssertionError ''no file provided.''), fs)
   \<and> (fs p \<noteq> None \<longrightarrow>
      save_training_data ex module_args fs (Some p) data
      = (Inl (AssertionError ''file has already existed.''), fs))
   \<and> (tp_out t1 = None \<longrightarrow>
      tp_run ex fs t1 = (Inl (AssertionError ''no output name.''), fs))
   \<and> (tp_out t2 \<noteq> None \<and> tp_demography t2 = Some d \<and> fs d = None \<longrightarrow>
      tp_run ex fs t2 = (Inl (AssertionError []), fs))
   \<and> (tp_out t3 \<noteq> None \<and> tp_rate_map t3 = Some m \<and> fs m = None \<longrightarrow>
      tp_run ex fs t3 = (Inl (AssertionError []), fs))"
proof (intro conjI impI)
  assume "out a1 = None"
  then show "run ex module_args fs a1 = (Inl (AssertionError ''no output name.''), fs)"
    by (simp add: run_def)
next
  assume "out a2 \<noteq> None \<and> rmax a2 < rmin a2"
  then show "run ex module_args fs a2
      = (Inl (AssertionError ''r_max should be greater than r_min.''), fs)"
    by (cases "out a2") (simp_all add: run_def)
next
  show "save_training_data ex module_args fs None data
     = (Inl (AssertionError ''no file provided.''), fs)"
    by (simp add: save_training_data_def)
next
  assume "fs p \<noteq> None"
  then show "save_training_data ex module_args fs (Some p) data
      = (Inl (AssertionError ''file has already existed.''), fs)"
    by (simp add: save_training_data_def)
next
  assume "tp_out t1 = None"
  then show "tp_run ex fs t1 = (Inl (AssertionError ''no output name.''), fs)"
    by (simp add: tp_run_def)
next
  assume "tp_out t2 \<noteq> None \<and> tp_demography t2 = Some d \<and> fs d = None"
  then show "tp_run ex fs t2 = (Inl (AssertionError []), fs)"
    by (cases "tp_out t2") (simp_all add: tp_run_def)
next
  assume "tp_out t3 \<noteq> None \<and> tp_rate_map t3 = Some m \<and> fs m = None"
  then show "tp_run ex fs t3 = (Inl (AssertionError []), fs)"
    by (cases "tp_out t3") (simp_all add: tp_run_def split: option.splits)
qed

theorem precondition_assertions_witness:
  "out (default_args\<lparr>out := None\<rparr>) = None
   \<and> out (default_args\<lparr>rmin := 1, rmax := 0\<rparr>) \<noteq> None
   \<and> rmax (default_args\<lparr>rmin := 1, rmax := 0\<rparr>) < rmin (default_args\<lparr>rmin := 1, rmax := 0\<rparr>)
   \<and> [''train.pkl'' \<mapsto> Other ''old''] ''train.pkl'' \<noteq> None
   \<and> tp_out (tp_default_args\<lparr>tp_out := None\<rparr>) = None
   \<and> tp_out (tp_default_args\<lparr>tp_demography := Some ''demo.csv''\<rparr>) \<noteq> None
   \<and> tp_demography (tp_default_args\<lparr>tp_demography := Some ''demo.csv''\<rparr>) = Some ''demo.csv''
   \<and> [''train.pkl'' \<mapsto> Other ''old''] ''demo.csv'' = None
   \<and> tp_out (tp_default_args\<lparr>tp_rate_map := Some ''map.txt''\<rparr>) \<noteq> None
   \<and> tp_rate_map (tp_default_args\<lparr>tp_rate_map := Some ''map.txt''\<rparr>) = Some ''map.txt''
   \<and> [''train.pkl'' \<mapsto> Other ''old''] ''map.txt'' = None
   \<and> run small_ext None [''train.pkl'' \<mapsto> Other ''old''] (default_args\<lparr>out := None\<rparr>)
     = (Inl (AssertionError ''no output name.''), [''train.pkl'' \<mapsto> Other ''old''])
   \<and> run small_ext None [''train.pkl'' \<mapsto> Other ''old''] (default_args\<lparr>rmin := 1, rmax := 0\<rparr>)
     = (Inl (AssertionError ''r_max should be greater than r_min.''),
        [''train.pkl'' \<mapsto> Other ''old''])
   \<and> save_training_data small_ext None [''train.pkl'' \<mapsto> Other ''old''] (Some ''train.pkl'')
        ([], [])
     = (Inl (AssertionError ''file has already existed.''), [''train.pkl'' \<mapsto> Other ''old''])
   \<and> tp_run small_ext [''train.pkl'' \<mapsto> Other ''old''] (tp_default_args\<lparr>tp_out := None\<rparr>)
     = (Inl (AssertionError ''no output name.''), [''train.pkl'' \<mapsto> Other ''old''])
   \<and> tp_run small_ext [''train.pkl'' \<mapsto> Other ''old'']
        (tp_default_args\<lparr>tp_demography := Some ''demo.csv''\<rparr>)
     = (Inl (AssertionError []), [''train.pkl'' \<mapsto> Other ''old''])
   \<and> tp_run small_ext [''train.pkl'' \<mapsto> Other ''old'']
        (tp_default_args\<lparr>tp_rate_map := Some ''map.txt''\<rparr>)
     = (Inl (AssertionError []), [''train.pkl'' \<mapsto> Other ''old''])"
proof -
  let ?fs = "[''train.pkl'' \<mapsto> Other ''old'']"
  have h: "out (default_args\<lparr>out := None\<rparr>) = None"
    "out (default_args\<lparr>rmin := 1, rmax := 0\<rparr>) \<noteq> None"
    "rmax (default_args\<lparr>rmin := 1, rmax := 0\<rparr>) < rmin (default_args\<lparr>rmin := 1, rmax := 0\<rparr>)"
    "?fs ''train.pkl'' \<noteq> None"
    "tp_out (tp_default_args\<lparr>tp_out := None\<rparr>) = None"
    "tp_out (tp_default_args\<lparr>tp_demography := Some ''demo.csv''\<rparr>) \<noteq> None"
    "tp_demography (tp_default_args\<lparr>tp_demography := Some ''demo.csv''\<rparr>) = Some ''demo.csv''"
    "?fs ''demo.csv'' = None"
    "tp_out (tp_default_args\<lparr>tp_rate_map := Some ''map.txt''\<rparr>) \<noteq> None"
    "tp_rate_map (tp_default_args\<lparr>tp_rate_map := Some ''map.txt''\<rparr>) = Some ''map.txt''"
    "?fs ''map.txt'' = None"
    by (simp_all add: default_args_def tp_default_args_def)
  from precondition_assertions [of "default_args\<lparr>out := None\<rparr>" small_ext None ?fs
      "default_args\<lparr>rmin := 1, rmax := 0\<rparr>" "([], [])" "''train.pkl''"
      "tp_default_args\<lparr>tp_out := None\<rparr>"
      "tp_default_args\<lparr>tp_demography := Some ''demo.csv''\<rparr>" "''demo.csv''"
      "tp_default_args\<lparr>tp_rate_map := Some ''map.txt''\<rparr>" "''map.txt''"] h
  show ?thesis by blast
qed

end
